theory Spec2Isabelle
  imports Main "HOL-Library.Word" "HOL-Library.Signed_Division" "HOL-Library.Sublist"
begin

section \<open>Go values\<close>

text \<open>
  A Go \<open>map[string]V\<close> is a reference: \<open>None\<close> is the nil map, \<open>Some f\<close> a map with
  the entries of \<open>f\<close>. Looking a key up in a nil map finds nothing, and
  \<open>reflect.DeepEqual\<close> tells a nil map from an empty one, as HOL equality on this type
  does. A Go pointer \<open>*T\<close> is a \<open>T option\<close>, \<open>None\<close> for nil.
\<close>

type_synonym 'v gomap = "(string \<rightharpoonup> 'v) option"

type_synonym bytes = string

type_synonym int64 = "64 word"

text \<open>The comma-ok form \<open>v, ok := m[k]\<close>: \<open>None\<close> when \<open>ok\<close> is false.\<close>

definition mapGet :: "'v gomap \<Rightarrow> string \<Rightarrow> 'v option" where
  "mapGet m k = (case m of None \<Rightarrow> None | Some f \<Rightarrow> f k)"

text \<open>
  The index expression \<open>m[k]\<close>: the zero value of the element type when the key is
  missing. It is used on maps whose elements are maps or pointers, whose zero value
  is nil.
\<close>

definition mapIndex :: "'v option gomap \<Rightarrow> string \<Rightarrow> 'v option" where
  "mapIndex m k = (case mapGet m k of None \<Rightarrow> None | Some v \<Rightarrow> v)"

text \<open>A \<open>range\<close> over a nil or empty map runs its body no time.\<close>

definition mapEmpty :: "'v gomap \<Rightarrow> bool" where
  "mapEmpty m = (case m of None \<Rightarrow> True | Some f \<Rightarrow> f = Map.empty)"

text \<open>
  Go's \<open>/\<close> on \<open>int64\<close> truncates towards zero; \<open>-\<close> wraps around, as it does on
  words.
\<close>

definition div64 :: "int64 \<Rightarrow> int64 \<Rightarrow> int64" where
  "div64 a b = word_of_int (sint a sdiv sint b)"

text \<open>A function that can panic (a nil dereference) either panics or returns.\<close>

datatype 'a outcome = Panic | Return 'a

section \<open>Data model\<close>

text \<open>
  Modelled from the spec: the types \<open>birdwatcher.Manifest\<close>, \<open>birdwatcher.PackageInfo\<close>,
  \<open>birdwatcher.FileInfo\<close> and \<open>archive.File\<close> are declared outside this file. Their
  fields are those of the spec's data model (section 3); the code of this file shows
  that the selector tree ends in pointers (\<open>map[string]map[string]map[string]*PackageInfo\<close>)
  and that the file table holds pointers (\<open>fileInfo = f\<close> with \<open>fileInfo *FileInfo\<close>).
\<close>

record PackageInfo =
  FileName :: string

record FileInfo =
  Checksums :: "string gomap"

record Manifest =
  Version :: string
  Packages :: "PackageInfo option gomap gomap gomap"
  Files :: "FileInfo option gomap"

record File =
  Name :: string
  Info :: FileInfo

text \<open>
  Modelled from the spec: the environment record of \<open>envdetect\<close> is declared outside
  this file. The code reads \<open>env.OperatingSystem.{Platform, PlatformVersion, Architecture}\<close>
  and \<open>env.Ec2Infrastructure.{InstanceID, InstanceType, Region, AvailabilityZone}\<close>.
\<close>

record OperatingSystem =
  Platform :: string
  PlatformVersion :: string
  Architecture :: string

record Ec2Infrastructure =
  InstanceID :: string
  InstanceType :: string
  Region :: string
  AvailabilityZone :: string

record Environment =
  OperatingSystem :: OperatingSystem
  Ec2Infrastructure :: Ec2Infrastructure

text \<open>
  Modelled from the spec: \<open>packageservice.PackageResult\<close> and its trace entries are
  declared outside this file (spec section 3: package name, version, previous version,
  operation, exit code, start timestamp, ordered steps). The fields of the result carry
  the prefix \<open>Result\<close> where the step has a field of the same name.
\<close>

record Trace =
  Operation :: string
  Exitcode :: int64
  Timing :: int64

record PackageResult =
  PackageName :: string
  ResultVersion :: string
  PreviousPackageVersion :: string
  ResultOperation :: string
  ResultTiming :: int64
  ResultExitcode :: int64
  Trace :: "Trace list"

text \<open>
  The payload \<open>ssm.PutConfigurePackageResultInput\<close> as \<open>ReportResult\<close> fills it: a
  \<open>*string\<close> left nil is \<open>None\<close>.
\<close>

record ConfigurePackageResultStep =
  Action :: string
  Result :: int64
  StepTiming :: int64

record PutConfigurePackageResultInput =
  InputPackageName :: string
  InputPackageVersion :: string
  InputPreviousPackageVersion :: "string option"
  InputOperation :: string
  OverallTiming :: int64
  InputResult :: int64
  Attributes :: "string \<rightharpoonup> string"
  Steps :: "ConfigurePackageResultStep list"

text \<open>The two fields of \<open>artifact.DownloadInput\<close> and the one of its output used here.\<close>

record DownloadInput =
  SourceURL :: string
  SourceChecksums :: "string gomap"

record DownloadOutput =
  LocalFilePath :: string

section \<open>Errors\<close>

text \<open>
  Every error of this file is built by \<open>fmt.Errorf\<close> or \<open>errors.New\<close>, or is the error
  of a collaborator handed on unchanged. One constructor stands for each place that
  returns an error; \<open>Error\<close> is the text Go's \<open>Error()\<close> gives. A collaborator's own error
  is its text.
\<close>

datatype error =
    NoServiceError
  | BackendError string
  | DecodeError string
  | CacheMissError string
  | CacheWriteError string
  | ManifestDownloadError error
  | CollectError string
  | NoMatchError string string string
  | PlatformError error
  | FileNotFoundError "PackageInfo option"
  | MissingInputError
  | LocationError string
  | DownloadError string "string option"
  | ReportSubmissionError string

text \<open>\<open>%+v\<close> of a \<open>*PackageInfo\<close>.\<close>

definition showPackageInfo :: "PackageInfo option \<Rightarrow> string" where
  "showPackageInfo p =
     (case p of None \<Rightarrow> ''<nil>'' | Some i \<Rightarrow> ''&{FileName:'' @ FileName i @ ''}'')"

fun Error :: "error \<Rightarrow> string" where
  "Error NoServiceError = ''PackageService doesn't exist''"
| "Error (BackendError e) = ''failed to download manifest - '' @ e"
| "Error (DecodeError e) = ''failed to decode manifest: '' @ e"
| "Error (CacheMissError e) = e"
| "Error (CacheWriteError e) = ''failed to write manifest to file: '' @ e"
| "Error (ManifestDownloadError e) = ''failed to download the manifest: '' @ Error e"
| "Error (CollectError e) = ''failed to collect data: '' @ e"
| "Error (NoMatchError p v a) =
     ''no manifest found for platform: '' @ p @ '', version '' @ v @ '', architecture '' @ a"
| "Error (PlatformError e) = ''failed to find platform: '' @ Error e"
| "Error (FileNotFoundError p) = ''failed to find file for '' @ showPackageInfo p"
| "Error MissingInputError =
     ''Either package service does not exist or does not have archive information or the file information does not exist''"
| "Error (LocationError e) = e"
| "Error (DownloadError url e) =
     (let errMessage = ''failed to download installation package reliably, '' @ url
      in case e of None \<Rightarrow> errMessage | Some d \<Rightarrow> errMessage @ '', '' @ d)"
| "Error (ReportSubmissionError e) = ''failed to report results: '' @ e"

section \<open>Collaborators\<close>

text \<open>
  The collaborators are interfaces, so they are parameters: the archive backend
  (\<open>archive.IPackageArchive\<close>), the manifest cache (\<open>packageservice.ManifestCache\<close>) over
  a store of any type \<open>'c\<close>, the transport (\<open>facade.BirdwatcherFacade\<close>), the collector's
  answer and the clock's reading. A call that can fail returns the error's text on the
  left. \<open>CollectData\<close> returns a pair of a pointer and an error, and the code reads both.
\<close>

record Archive =
  GetResourceVersion :: "string \<Rightarrow> string \<Rightarrow> string \<times> string"
  DownloadArchiveInfo :: "string \<Rightarrow> string \<Rightarrow> string + string"
  GetResourceArn :: "Manifest \<Rightarrow> string"
  GetFileDownloadLocation :: "File \<Rightarrow> string \<Rightarrow> string \<Rightarrow> string + string"

record 'c ManifestCache =
  ReadManifest :: "'c \<Rightarrow> string \<Rightarrow> string \<Rightarrow> string + bytes"
  WriteManifest :: "'c \<Rightarrow> string \<Rightarrow> string \<Rightarrow> bytes \<Rightarrow> string option \<times> 'c"

text \<open>
  \<open>archive\<close> is \<open>None\<close> for a nil interface: \<open>downloadFile\<close> tests it. The decoder of
  \<open>encoding/json\<close> and the package variable \<open>birdwatcher.Networkdep\<close> are not fields
  of the service; they are the record \<open>Lib\<close>.
\<close>

record 'c PackageService =
  pkgSvcName :: string
  facadeClient :: "PutConfigurePackageResultInput \<Rightarrow> string option"
  manifestCache :: "'c ManifestCache"
  collector :: "Environment option \<times> string option"
  timeProvider :: int64
  archive :: "Archive option"

record Lib =
  Decode :: "bytes \<Rightarrow> string + Manifest"
  Download :: "DownloadInput \<Rightarrow> DownloadOutput \<times> string option"

text \<open>
  What an operation does to the outside is the store of the cache and the sequence of
  calls it made on its collaborators, in order.
\<close>

datatype Call =
    ReadManifestCall string string
  | WriteManifestCall string string bytes
  | DownloadArchiveInfoCall string string
  | GetFileDownloadLocationCall File string string
  | DownloadCall DownloadInput
  | CollectDataCall
  | NowUnixNanoCall
  | PutConfigurePackageResultCall PutConfigurePackageResultInput

record 'c World =
  store :: 'c
  calls :: "Call list"

definition logCall :: "Call \<Rightarrow> 'c World \<Rightarrow> 'c World" where
  "logCall c w = w\<lparr>calls := calls w @ [c]\<rparr>"

section \<open>Service\<close>

text \<open>
  The exported methods are called on a service that exists; \<open>downloadManifest\<close> and
  \<open>downloadFile\<close>, which test \<open>ds == nil\<close>, take a service that may be nil.
\<close>

definition PackageServiceName :: "'c PackageService \<Rightarrow> string" where
  "PackageServiceName ds = pkgSvcName ds"

definition GetPackageArnAndVersion ::
  "'c PackageService \<Rightarrow> string \<Rightarrow> string \<Rightarrow> (string \<times> string) outcome" where
  "GetPackageArnAndVersion ds packageName packageVersion =
     (case archive ds of
        None \<Rightarrow> Panic
      | Some ar \<Rightarrow> Return (GetResourceVersion ar packageName packageVersion))"

section \<open>Selector resolution\<close>

text \<open>
  \<open>matchPackageSelectorPlatform\<close>, \<open>matchPackageSelectorVersion\<close> and
  \<open>matchPackageSelectorArch\<close>: the key itself when the map has it, else \<open>"_any"\<close> when
  the map has that, else the empty string and false.
\<close>

definition matchPackageSelectorPlatform ::
  "string \<Rightarrow> PackageInfo option gomap gomap gomap \<Rightarrow> string \<times> bool" where
  "matchPackageSelectorPlatform key dict =
     (if mapGet dict key \<noteq> None then (key, True)
      else if mapGet dict ''_any'' \<noteq> None then (''_any'', True)
      else ([], False))"

definition matchPackageSelectorVersion ::
  "string \<Rightarrow> PackageInfo option gomap gomap \<Rightarrow> string \<times> bool" where
  "matchPackageSelectorVersion key dict =
     (if mapGet dict key \<noteq> None then (key, True)
      else if mapGet dict ''_any'' \<noteq> None then (''_any'', True)
      else ([], False))"

definition matchPackageSelectorArch ::
  "string \<Rightarrow> PackageInfo option gomap \<Rightarrow> string \<times> bool" where
  "matchPackageSelectorArch key dict =
     (if mapGet dict key \<noteq> None then (key, True)
      else if mapGet dict ''_any'' \<noteq> None then (''_any'', True)
      else ([], False))"

text \<open>
  \<open>extractPackageInfo\<close>. The collector is asked once; its error ends the function
  before \<open>env\<close> is read, and a nil \<open>env\<close> with a nil error panics at
  \<open>env.OperatingSystem\<close>. The result is the pointer stored at the leaf, which may be nil.
\<close>

definition extractPackageInfo ::
  "'c PackageService \<Rightarrow> Manifest \<Rightarrow> 'c World \<Rightarrow>
     ((error + PackageInfo option) \<times> 'c World) outcome" where
  "extractPackageInfo ds manifest w =
     (let w1 = logCall CollectDataCall w;
          (env, err) = collector ds
      in case err of
           Some e \<Rightarrow> Return (Inl (CollectError e), w1)
         | None \<Rightarrow>
             (case env of
                None \<Rightarrow> Panic
              | Some env \<Rightarrow>
                  (let os = OperatingSystem env;
                       nomatch = Return (Inl (NoMatchError (Platform os) (PlatformVersion os)
                                   (Architecture os)), w1);
                       (keyplatform, ok1) =
                          matchPackageSelectorPlatform (Platform os) (Packages manifest)
                   in if ok1 then
                        (let versions = mapIndex (Packages manifest) keyplatform;
                             (keyversion, ok2) =
                                matchPackageSelectorVersion (PlatformVersion os) versions
                         in if ok2 then
                              (let archs = mapIndex versions keyversion;
                                   (keyarch, ok3) =
                                      matchPackageSelectorArch (Architecture os) archs
                               in if ok3 then Return (Inr (mapIndex archs keyarch), w1)
                                  else nomatch)
                            else nomatch)
                      else nomatch)))"

text \<open>
  The resolver as the spec words it (section 4.2): at each level the exact key if
  present, otherwise \<open>"_any"\<close> if present, otherwise no match; the chosen key is final.
\<close>

definition selectKey :: "string \<Rightarrow> 'v gomap \<Rightarrow> string option" where
  "selectKey key dict =
     (case mapGet dict key of
        Some _ \<Rightarrow> Some key
      | None \<Rightarrow> (case mapGet dict ''_any'' of Some _ \<Rightarrow> Some ''_any'' | None \<Rightarrow> None))"

definition resolveVariant ::
  "Manifest \<Rightarrow> string \<Rightarrow> string \<Rightarrow> string \<Rightarrow> error + PackageInfo option" where
  "resolveVariant manifest p v a =
     (case selectKey p (Packages manifest) of
        None \<Rightarrow> Inl (NoMatchError p v a)
      | Some kp \<Rightarrow>
          (case selectKey v (mapIndex (Packages manifest) kp) of
             None \<Rightarrow> Inl (NoMatchError p v a)
           | Some kv \<Rightarrow>
               (case selectKey a (mapIndex (mapIndex (Packages manifest) kp) kv) of
                  None \<Rightarrow> Inl (NoMatchError p v a)
                | Some ka \<Rightarrow>
                    Inr (mapIndex (mapIndex (mapIndex (Packages manifest) kp) kv) ka))))"

section \<open>Manifest store\<close>

definition parseManifest :: "Lib \<Rightarrow> bytes \<Rightarrow> error + Manifest" where
  "parseManifest lib data =
     (case Decode lib data of
        Inl err \<Rightarrow> Inl (DecodeError err)
      | Inr manifest \<Rightarrow> Inr manifest)"

definition readManifestFromCache ::
  "Lib \<Rightarrow> 'c ManifestCache \<Rightarrow> string \<Rightarrow> string \<Rightarrow> 'c World \<Rightarrow>
     (error + Manifest) \<times> 'c World" where
  "readManifestFromCache lib cache packageName version w =
     (let w1 = logCall (ReadManifestCall packageName version) w
      in case ReadManifest cache (store w) packageName version of
           Inl err \<Rightarrow> (Inl (CacheMissError err), w1)
         | Inr data \<Rightarrow> (parseManifest lib data, w1))"

text \<open>The call \<open>cache.WriteManifest\<close>: the error it returns and the store it leaves.\<close>

definition writeManifestToCache ::
  "'c ManifestCache \<Rightarrow> string \<Rightarrow> string \<Rightarrow> bytes \<Rightarrow> 'c World \<Rightarrow>
     string option \<times> 'c World" where
  "writeManifestToCache cache name version data w =
     (let (err, st) = WriteManifest cache (store w) name version data
      in (err, (logCall (WriteManifestCall name version data) w)\<lparr>store := st\<rparr>))"

text \<open>
  \<open>downloadManifest\<close> returns \<open>(manifest, isSameAsCache, err)\<close> with either the
  manifest or the error nil: here the flag and a sum. \<open>reflect.DeepEqual\<close> of the parsed
  manifest with the nil pointer that a failed read leaves is false.
\<close>

definition downloadManifest ::
  "Lib \<Rightarrow> 'c PackageService option \<Rightarrow> string \<Rightarrow> string \<Rightarrow> 'c World \<Rightarrow>
     ((bool \<times> (error + Manifest)) \<times> 'c World) outcome" where
  "downloadManifest lib dso packageName version w =
     (case dso of
        None \<Rightarrow> Return ((False, Inl NoServiceError), w)
      | Some ds \<Rightarrow>
          (case archive ds of
             None \<Rightarrow> Panic
           | Some ar \<Rightarrow>
               (let w1 = logCall (DownloadArchiveInfoCall packageName version) w
                in case DownloadArchiveInfo ar packageName version of
                     Inl err \<Rightarrow> Return ((False, Inl (BackendError err)), w1)
                   | Inr byteManifest \<Rightarrow>
                       (case parseManifest lib byteManifest of
                          Inl err \<Rightarrow> Return ((False, Inl err), w1)
                        | Inr parsedManifest \<Rightarrow>
                            (let (cachedManifest, w2) =
                                   readManifestFromCache lib (manifestCache ds)
                                     (GetResourceArn ar parsedManifest)
                                     (Version parsedManifest) w1;
                                 isSameAsCache =
                                   (case cachedManifest of
                                      Inl _ \<Rightarrow> False
                                    | Inr cached \<Rightarrow> parsedManifest = cached);
                                 (err, w3) =
                                   writeManifestToCache (manifestCache ds)
                                     (GetResourceArn ar parsedManifest)
                                     (Version parsedManifest) byteManifest w2
                             in case err of
                                  Some e \<Rightarrow>
                                    Return ((isSameAsCache, Inl (CacheWriteError e)), w3)
                                | None \<Rightarrow>
                                    Return ((isSameAsCache, Inr parsedManifest), w3))))))"

text \<open>
  \<open>DownloadManifest\<close>, the exported operation: resource identifier, version, flag and
  error.
\<close>

definition DownloadManifest ::
  "Lib \<Rightarrow> 'c PackageService \<Rightarrow> string \<Rightarrow> string \<Rightarrow> 'c World \<Rightarrow>
     ((string \<times> string \<times> bool \<times> error option) \<times> 'c World) outcome" where
  "DownloadManifest lib ds packageName version w =
     (case downloadManifest lib (Some ds) packageName version w of
        Panic \<Rightarrow> Panic
      | Return ((isSameAsCache, Inl err), w1) \<Rightarrow>
          Return (([], [], isSameAsCache, Some err), w1)
      | Return ((isSameAsCache, Inr manifest), w1) \<Rightarrow>
          (case archive ds of
             None \<Rightarrow> Panic
           | Some ar \<Rightarrow>
               Return ((GetResourceArn ar manifest, Version manifest, isSameAsCache, None), w1)))"

section \<open>Artifact locator and downloader\<close>

text \<open>
  The loop of \<open>findFileFromManifest\<close> over the entries of \<open>manifest.Files\<close>, in the order
  in which \<open>range\<close> happens to visit them: it stops at the first entry whose name is
  \<open>pkginfo.FileName\<close> and leaves \<open>(fileInfo, filename)\<close>, which start as nil and the
  empty string. Reading \<open>pkginfo.FileName\<close> panics when \<open>pkginfo\<close> is nil.
\<close>

fun rangeFiles ::
  "(string \<times> FileInfo option) list \<Rightarrow> PackageInfo option \<Rightarrow> (FileInfo option \<times> string) outcome"
  where
  "rangeFiles [] pkginfo = Return (None, [])"
| "rangeFiles ((name, f) # rest) pkginfo =
     (case pkginfo of
        None \<Rightarrow> Panic
      | Some p \<Rightarrow> if name = FileName p then Return (f, name) else rangeFiles rest pkginfo)"

text \<open>
  The second half of \<open>findFileFromManifest\<close> (from the loop to the return), which the
  spec calls \<open>locateFile\<close>. A Go map has one entry for a key, so the loop finds the entry
  of \<open>pkginfo.FileName\<close> if there is one, whatever the order; the table is a map here
  and the loop a lookup (lemma \<open>locateFile_loop\<close> below).
\<close>

definition locateFile :: "Manifest \<Rightarrow> PackageInfo option \<Rightarrow> (error + File) outcome" where
  "locateFile manifest pkginfo =
     (case pkginfo of
        None \<Rightarrow>
          if mapEmpty (Files manifest) then Return (Inl (FileNotFoundError pkginfo))
          else Panic
      | Some p \<Rightarrow>
          (case mapGet (Files manifest) (FileName p) of
             Some (Some fileInfo) \<Rightarrow> Return (Inr \<lparr>Name = FileName p, Info = fileInfo\<rparr>)
           | _ \<Rightarrow> Return (Inl (FileNotFoundError pkginfo))))"

definition findFileFromManifest ::
  "'c PackageService \<Rightarrow> Manifest \<Rightarrow> 'c World \<Rightarrow> ((error + File) \<times> 'c World) outcome" where
  "findFileFromManifest ds manifest w =
     (case extractPackageInfo ds manifest w of
        Panic \<Rightarrow> Panic
      | Return (Inl err, w1) \<Rightarrow> Return (Inl (PlatformError err), w1)
      | Return (Inr pkginfo, w1) \<Rightarrow>
          (case locateFile manifest pkginfo of
             Panic \<Rightarrow> Panic
           | Return r \<Rightarrow> Return (r, w1)))"

definition downloadFile ::
  "Lib \<Rightarrow> 'c PackageService option \<Rightarrow> File option \<Rightarrow> string \<Rightarrow> string \<Rightarrow> 'c World \<Rightarrow>
     (error + string) \<times> 'c World" where
  "downloadFile lib dso fileo packagename version w =
     (case dso of
        None \<Rightarrow> (Inl MissingInputError, w)
      | Some ds \<Rightarrow>
          (case archive ds of
             None \<Rightarrow> (Inl MissingInputError, w)
           | Some ar \<Rightarrow>
               (case fileo of
                  None \<Rightarrow> (Inl MissingInputError, w)
                | Some file \<Rightarrow>
                    (let w1 = logCall (GetFileDownloadLocationCall file packagename version) w
                     in case GetFileDownloadLocation ar file packagename version of
                          Inl err \<Rightarrow> (Inl (LocationError err), w1)
                        | Inr sourceUrl \<Rightarrow>
                            (let downloadInput =
                                   \<lparr>SourceURL = sourceUrl,
                                    SourceChecksums = Checksums (Info file)\<rparr>;
                                 w2 = logCall (DownloadCall downloadInput) w1;
                                 (downloadOutput, downloadErr) = Download lib downloadInput
                             in if downloadErr \<noteq> None \<or> LocalFilePath downloadOutput = []
                                then (Inl (DownloadError (SourceURL downloadInput) downloadErr), w2)
                                else (Inr (LocalFilePath downloadOutput), w2))))))"

text \<open>
  \<open>DownloadArtifact\<close> from line 112 on, once it has a manifest: select the file, then
  download it.
\<close>

definition downloadFromManifest ::
  "Lib \<Rightarrow> 'c PackageService \<Rightarrow> Manifest \<Rightarrow> string \<Rightarrow> string \<Rightarrow> 'c World \<Rightarrow>
     ((error + string) \<times> 'c World) outcome" where
  "downloadFromManifest lib ds manifest packageName version w =
     (case findFileFromManifest ds manifest w of
        Panic \<Rightarrow> Panic
      | Return (Inl err, w1) \<Rightarrow> Return (Inl err, w1)
      | Return (Inr file, w1) \<Rightarrow>
          Return (downloadFile lib (Some ds) (Some file) packageName version w1))"

definition DownloadArtifact ::
  "Lib \<Rightarrow> 'c PackageService \<Rightarrow> string \<Rightarrow> string \<Rightarrow> 'c World \<Rightarrow>
     ((error + string) \<times> 'c World) outcome" where
  "DownloadArtifact lib ds packageName version w =
     (case readManifestFromCache lib (manifestCache ds) packageName version w of
        (Inr manifest, w1) \<Rightarrow> downloadFromManifest lib ds manifest packageName version w1
      | (Inl _, w1) \<Rightarrow>
          (case downloadManifest lib (Some ds) packageName version w1 of
             Panic \<Rightarrow> Panic
           | Return ((_, Inl err), w2) \<Rightarrow> Return (Inl (ManifestDownloadError err), w2)
           | Return ((_, Inr manifest), w2) \<Rightarrow>
               downloadFromManifest lib ds manifest packageName version w2))"

section \<open>Result reporter\<close>

text \<open>
  The loop of \<open>ReportResult\<close> over \<open>result.Trace\<close>, appending one step per entry.
  \<open>timing\<close> is a variable of the loop body, new in every round. \<open>Action\<close> and \<open>Result\<close>
  point into the entry \<open>t\<close>; they are read here from the entry of their own round.
\<close>

fun appendSteps ::
  "int64 \<Rightarrow> Trace list \<Rightarrow> ConfigurePackageResultStep list \<Rightarrow> ConfigurePackageResultStep list"
  where
  "appendSteps start [] steps = steps"
| "appendSteps start (t # ts) steps =
     (let timing = div64 (Timing t - start) 1000000
      in appendSteps start ts
           (steps @ [\<lparr>Action = Operation t, Result = Exitcode t, StepTiming = timing\<rparr>]))"

text \<open>
  \<open>ReportResult\<close>. The collector's error is dropped (\<open>env, _ :=\<close>); the steps and the
  overall timing are computed; then the payload is built, reading
  \<open>env.OperatingSystem\<close> and \<open>env.Ec2Infrastructure\<close>, which panics when \<open>env\<close> is nil.
  The result is the error returned and the world after the call on the transport.
\<close>

definition ReportResult ::
  "'c PackageService \<Rightarrow> PackageResult \<Rightarrow> 'c World \<Rightarrow> (error option \<times> 'c World) outcome" where
  "ReportResult ds result w =
     (let w1 = logCall CollectDataCall w;
          (env, _) = collector ds;
          previousPackageVersion =
            (if PreviousPackageVersion result \<noteq> [] then Some (PreviousPackageVersion result)
             else None);
          steps = appendSteps (ResultTiming result) (Trace result) [];
          w2 = logCall NowUnixNanoCall w1;
          overallTiming = div64 (timeProvider ds - ResultTiming result) 1000000
      in case env of
           None \<Rightarrow> Panic
         | Some env \<Rightarrow>
             (let input =
                    \<lparr>InputPackageName = PackageName result,
                     InputPackageVersion = ResultVersion result,
                     InputPreviousPackageVersion = previousPackageVersion,
                     InputOperation = ResultOperation result,
                     OverallTiming = overallTiming,
                     InputResult = ResultExitcode result,
                     Attributes =
                       [''platformName'' \<mapsto> Platform (OperatingSystem env),
                        ''platformVersion'' \<mapsto> PlatformVersion (OperatingSystem env),
                        ''architecture'' \<mapsto> Architecture (OperatingSystem env),
                        ''instanceID'' \<mapsto> InstanceID (Ec2Infrastructure env),
                        ''instanceType'' \<mapsto> InstanceType (Ec2Infrastructure env),
                        ''region'' \<mapsto> Region (Ec2Infrastructure env),
                        ''availabilityZone'' \<mapsto> AvailabilityZone (Ec2Infrastructure env)],
                     Steps = steps\<rparr>;
                  w3 = logCall (PutConfigurePackageResultCall input) w2
              in case facadeClient ds input of
                   Some err \<Rightarrow> Return (Some (ReportSubmissionError err), w3)
                 | None \<Rightarrow> Return (None, w3)))"

section \<open>Properties of calls\<close>

text \<open>The calls that select a file or download it, and the call that fetches a manifest.\<close>

fun isSelectionOrDownload :: "Call \<Rightarrow> bool" where
  "isSelectionOrDownload CollectDataCall = True"
| "isSelectionOrDownload (GetFileDownloadLocationCall f n v) = True"
| "isSelectionOrDownload (DownloadCall i) = True"
| "isSelectionOrDownload c = False"

fun isManifestFetch :: "Call \<Rightarrow> bool" where
  "isManifestFetch (DownloadArchiveInfoCall n v) = True"
| "isManifestFetch c = False"

text \<open>
  The contract of a key-value cache (spec, sections 2 and 3): a write under one
  (identifier, version) pair, whether it succeeds or not, leaves what is read under
  every other pair as it was.
\<close>

definition keyLocal :: "'c ManifestCache \<Rightarrow> bool" where
  "keyLocal cache =
     (\<forall>st n v data n' v'. (n', v') \<noteq> (n, v) \<longrightarrow>
        ReadManifest cache (snd (WriteManifest cache st n v data)) n' v' =
        ReadManifest cache st n' v')"

section \<open>Concrete instances\<close>

text \<open>The manifest of the spec's end-to-end scenarios (section 8), version 1.0.0.\<close>

definition exPkg :: PackageInfo where
  "exPkg = \<lparr>FileName = ''pkg.zip''\<rparr>"

definition exFileInfo :: FileInfo where
  "exFileInfo = \<lparr>Checksums = Some [''sha256'' \<mapsto> ''abc'']\<rparr>"

definition exManifest :: Manifest where
  "exManifest =
     \<lparr>Version = ''1.0.0'',
      Packages = Some [''linux'' \<mapsto> Some [''_any'' \<mapsto> Some [''x86_64'' \<mapsto> Some exPkg]]],
      Files = Some [''pkg.zip'' \<mapsto> Some exFileInfo]\<rparr>"

text \<open>
  A manifest whose \<open>linux\<close> branch knows version 4.0 only, while its \<open>_any\<close> platform
  branch knows version 5.0.
\<close>

definition exLinuxVersions :: "PackageInfo option gomap gomap" where
  "exLinuxVersions = Some [''4.0'' \<mapsto> Some [''x86_64'' \<mapsto> Some exPkg]]"

definition exBranchManifest :: Manifest where
  "exBranchManifest =
     \<lparr>Version = ''1.0.0'',
      Packages = Some [''linux'' \<mapsto> exLinuxVersions,
                       ''_any'' \<mapsto> Some [''5.0'' \<mapsto> Some [''x86_64'' \<mapsto> Some exPkg]]],
      Files = Some [''pkg.zip'' \<mapsto> Some exFileInfo]\<rparr>"

text \<open>A manifest whose file table has the key \<open>pkg.zip\<close> with a null value.\<close>

definition exNullFileManifest :: Manifest where
  "exNullFileManifest =
     \<lparr>Version = ''1.0.0'',
      Packages = Some [''linux'' \<mapsto> Some [''_any'' \<mapsto> Some [''x86_64'' \<mapsto> Some exPkg]]],
      Files = Some [''pkg.zip'' \<mapsto> None]\<rparr>"

definition exEnv :: Environment where
  "exEnv =
     \<lparr>OperatingSystem =
        \<lparr>Platform = ''linux'', PlatformVersion = ''5.0'', Architecture = ''x86_64''\<rparr>,
      Ec2Infrastructure =
        \<lparr>InstanceID = ''i-0abc'', InstanceType = ''t2.micro'', Region = ''us-east-1'',
         AvailabilityZone = ''us-east-1a''\<rparr>\<rparr>"

text \<open>
  Modelled from the spec: the implementations of \<open>packageservice.ManifestCache\<close> are
  outside this file. \<open>kvCache\<close> is the store of sections 2 and 3 and of the contract in
  section 6: raw bytes keyed by (resource identifier, version), a read of a missing key
  is a miss, a write overwrites. \<open>failingCache\<close> reads the same and refuses every write.
\<close>

definition kvCache :: "(string \<times> string \<rightharpoonup> bytes) ManifestCache" where
  "kvCache =
     \<lparr>ReadManifest = (\<lambda>st n v. case st (n, v) of None \<Rightarrow> Inl ''manifest not found''
                                 | Some data \<Rightarrow> Inr data),
      WriteManifest = (\<lambda>st n v data. (None, st((n, v) \<mapsto> data)))\<rparr>"

definition failingCache :: "(string \<times> string \<rightharpoonup> bytes) ManifestCache" where
  "failingCache =
     \<lparr>ReadManifest = ReadManifest kvCache,
      WriteManifest = (\<lambda>st n v data. (Some ''permission denied'', st))\<rparr>"

text \<open>
  A decoder that knows one document, an archive that knows the package \<open>pkg\<close> and
  names its manifests by an identifier that is not the package name, and a downloader
  that succeeds.
\<close>

definition exLib :: Lib where
  "exLib =
     \<lparr>Decode = (\<lambda>data. if data = ''{manifest}'' then Inr exManifest
                        else Inl ''invalid character''),
      Download = (\<lambda>i. (\<lparr>LocalFilePath = ''/var/lib/pkg.zip''\<rparr>, None))\<rparr>"

definition exArn :: string where
  "exArn = ''arn:aws:ssm:::package/pkg''"

definition exArchive :: Archive where
  "exArchive =
     \<lparr>GetResourceVersion = (\<lambda>n v. (n, v)),
      DownloadArchiveInfo = (\<lambda>n v. if n = ''pkg'' then Inr ''{manifest}''
                                    else Inl ''package not found''),
      GetResourceArn = (\<lambda>m. exArn),
      GetFileDownloadLocation = (\<lambda>f n v. Inr (''https://example.com/'' @ Name f))\<rparr>"

definition exService :: "(string \<times> string \<rightharpoonup> bytes) PackageService" where
  "exService =
     \<lparr>pkgSvcName = ''birdwatcher'',
      facadeClient = (\<lambda>i. None),
      manifestCache = kvCache,
      collector = (Some exEnv, None),
      timeProvider = 1005000000,
      archive = Some exArchive\<rparr>"

definition exWorld :: "(string \<times> string \<rightharpoonup> bytes) World" where
  "exWorld = \<lparr>store = Map.empty, calls = []\<rparr>"

text \<open>A world whose cache holds the manifest under the key that \<open>downloadManifest\<close> uses.\<close>

definition exCachedWorld :: "(string \<times> string \<rightharpoonup> bytes) World" where
  "exCachedWorld = \<lparr>store = [(exArn, ''1.0.0'') \<mapsto> ''{manifest}''], calls = []\<rparr>"

text \<open>A world whose cache holds the manifest under the key (\<open>pkg\<close>, 1.0.0).\<close>

definition exHitWorld :: "(string \<times> string \<rightharpoonup> bytes) World" where
  "exHitWorld = \<lparr>store = [(''pkg'', ''1.0.0'') \<mapsto> ''{manifest}''], calls = []\<rparr>"

text \<open>
  The result of the spec's reporting scenario: start at 1000000000 ns, one step at
  1002000000 ns.
\<close>

definition exResult :: PackageResult where
  "exResult =
     \<lparr>PackageName = ''pkg'', ResultVersion = ''1.0.0'', PreviousPackageVersion = [],
      ResultOperation = ''Install'', ResultTiming = 1000000000, ResultExitcode = 0,
      Trace = [\<lparr>Operation = ''download'', Exitcode = 0, Timing = 1002000000\<rparr>]\<rparr>"

text \<open>The file of the example manifest, and a downloader that fails.\<close>

definition exFile :: File where
  "exFile = \<lparr>Name = ''pkg.zip'', Info = exFileInfo\<rparr>"

definition exFailLib :: Lib where
  "exFailLib =
     exLib\<lparr>Download := (\<lambda>i. (\<lparr>LocalFilePath = []\<rparr>, Some ''checksum mismatch''))\<rparr>"

text \<open>A result whose only step is stamped one nanosecond before the start.\<close>

definition exEarlyResult :: PackageResult where
  "exEarlyResult =
     exResult\<lparr>Trace := [\<lparr>Operation = ''download'', Exitcode = 0, Timing = 999999999\<rparr>]\<rparr>"

section \<open>Selector resolution: proofs\<close>

lemma matchPackageSelectorPlatform_selectKey:
  "matchPackageSelectorPlatform key dict =
     (case selectKey key dict of Some k \<Rightarrow> (k, True) | None \<Rightarrow> ([], False))"
  by (simp add: matchPackageSelectorPlatform_def selectKey_def split: option.splits)

lemma matchPackageSelectorVersion_selectKey:
  "matchPackageSelectorVersion key dict =
     (case selectKey key dict of Some k \<Rightarrow> (k, True) | None \<Rightarrow> ([], False))"
  by (simp add: matchPackageSelectorVersion_def selectKey_def split: option.splits)

lemma matchPackageSelectorArch_selectKey:
  "matchPackageSelectorArch key dict =
     (case selectKey key dict of Some k \<Rightarrow> (k, True) | None \<Rightarrow> ([], False))"
  by (simp add: matchPackageSelectorArch_def selectKey_def split: option.splits)

lemma extractPackageInfo_eq:
  assumes "collector ds = (Some env, None)"
  shows "extractPackageInfo ds manifest w =
           Return (resolveVariant manifest (Platform (OperatingSystem env))
                     (PlatformVersion (OperatingSystem env)) (Architecture (OperatingSystem env)),
                   logCall CollectDataCall w)"
  using assms
  by (simp add: extractPackageInfo_def resolveVariant_def Let_def
        matchPackageSelectorPlatform_selectKey matchPackageSelectorVersion_selectKey
        matchPackageSelectorArch_selectKey split: option.splits)

lemma resolveVariant_no_backtracking:
  assumes "mapGet (Packages manifest) p = Some versions"
    and "mapGet versions v = None" and "mapGet versions ''_any'' = None"
  shows "resolveVariant manifest p v a = Inl (NoMatchError p v a)"
  using assms
  by (simp add: resolveVariant_def selectKey_def mapIndex_def split: option.splits)

text \<open>
  Claim C1. For every manifest and every host triple that the collector reports,
  \<open>extractPackageInfo\<close> is the three level-local lookups of the spec: at each level the
  exact key if present, otherwise \<open>"_any"\<close> if present, otherwise failure, the chosen key
  being final. In particular, when the platform is present and neither the host's
  version nor \<open>"_any"\<close> is present under it, the result is the error naming the triple,
  whatever an \<open>"_any"\<close> platform branch holds.
\<close>

theorem variant_resolution_level_local:
  assumes "collector ds = (Some env, None)"
    and "p = Platform (OperatingSystem env)"
    and "v = PlatformVersion (OperatingSystem env)"
    and "a = Architecture (OperatingSystem env)"
  shows "extractPackageInfo ds manifest w =
           Return (resolveVariant manifest p v a, logCall CollectDataCall w)
       \<and> (\<forall>versions.
            mapGet (Packages manifest) p = Some versions \<and> mapGet versions v = None
              \<and> mapGet versions ''_any'' = None
            \<longrightarrow> extractPackageInfo ds manifest w =
                  Return (Inl (NoMatchError p v a), logCall CollectDataCall w))
       \<and> Error (NoMatchError p v a) =
           ''no manifest found for platform: '' @ p @ '', version '' @ v
             @ '', architecture '' @ a"
proof -
  have eq: "extractPackageInfo ds manifest w =
              Return (resolveVariant manifest p v a, logCall CollectDataCall w)"
    using assms by (simp add: extractPackageInfo_eq)
  show ?thesis
    using eq by (auto simp: resolveVariant_no_backtracking)
qed

lemma exBranch_lookups:
  "mapGet (Packages exBranchManifest) ''linux'' = Some exLinuxVersions"
  "mapGet exLinuxVersions ''5.0'' = None"
  "mapGet exLinuxVersions ''_any'' = None"
  by (simp_all add: exBranchManifest_def exLinuxVersions_def mapGet_def)

theorem variant_resolution_level_local_witness:
  "collector exService = (Some exEnv, None)
   \<and> mapGet (Packages exBranchManifest) ''linux'' = Some exLinuxVersions
   \<and> mapGet exLinuxVersions ''5.0'' = None
   \<and> mapGet exLinuxVersions ''_any'' = None
   \<and> mapIndex (mapIndex (mapIndex (Packages exBranchManifest) ''_any'') ''5.0'') ''x86_64''
       = Some exPkg
   \<and> extractPackageInfo exService exBranchManifest exWorld =
       Return (Inl (NoMatchError ''linux'' ''5.0'' ''x86_64''), logCall CollectDataCall exWorld)"
proof -
  have c: "collector exService = (Some exEnv, None)"
    by (simp add: exService_def)
  have any: "mapIndex (mapIndex (mapIndex (Packages exBranchManifest) ''_any'') ''5.0'') ''x86_64''
       = Some exPkg"
    by (simp add: exBranchManifest_def mapIndex_def mapGet_def)
  have p: "''linux'' = Platform (OperatingSystem exEnv)"
    and v: "''5.0'' = PlatformVersion (OperatingSystem exEnv)"
    and a: "''x86_64'' = Architecture (OperatingSystem exEnv)"
    by (simp_all add: exEnv_def)
  from variant_resolution_level_local [OF c p v a, of exBranchManifest exWorld]
  have "extractPackageInfo exService exBranchManifest exWorld =
       Return (Inl (NoMatchError ''linux'' ''5.0'' ''x86_64''), logCall CollectDataCall exWorld)"
    using exBranch_lookups by blast
  with c any exBranch_lookups show ?thesis by simp
qed

section \<open>Artifact locator: proofs\<close>

text \<open>
  The loop over the entries of a map, visited in any order, finds what a lookup finds:
  the entries of a Go map have distinct keys.
\<close>

lemma rangeFiles_map_of:
  assumes "distinct (map fst entries)"
  shows "rangeFiles entries (Some p) =
           Return (case map_of entries (FileName p) of
                     None \<Rightarrow> (None, [])
                   | Some f \<Rightarrow> (f, FileName p))"
  using assms
proof (induction entries)
  case Nil
  then show ?case by simp
next
  case (Cons e entries)
  obtain name f where e: "e = (name, f)" by (cases e)
  show ?case
  proof (cases "name = FileName p")
    case True
    with e show ?thesis by simp
  next
    case False
    with e Cons show ?thesis by simp
  qed
qed

lemma rangeFiles_nil_pkginfo:
  "rangeFiles entries None = (if entries = [] then Return (None, []) else Panic)"
  by (cases entries) auto

lemma locateFile_Some:
  "locateFile manifest (Some variant) =
     (case mapGet (Files manifest) (FileName variant) of
        Some (Some fileInfo) \<Rightarrow> Return (Inr \<lparr>Name = FileName variant, Info = fileInfo\<rparr>)
      | Some None \<Rightarrow> Return (Inl (FileNotFoundError (Some variant)))
      | None \<Rightarrow> Return (Inl (FileNotFoundError (Some variant))))"
  by (simp add: locateFile_def split: option.splits)

lemma mapGet_Some: "mapGet (Some f) = f"
  by (rule ext) (simp add: mapGet_def)

lemma mapGet_None: "mapGet None = Map.empty"
  by (rule ext) (simp add: mapGet_def)

lemma mapEmpty_mapGet: "mapEmpty m \<longleftrightarrow> mapGet m = Map.empty"
  by (cases m) (simp_all add: mapEmpty_def mapGet_Some mapGet_None)

text \<open>
  \<open>locateFile\<close> is the loop followed by the nil test, for every order in which the
  entries of the table can be visited.
\<close>

lemma locateFile_loop:
  assumes "distinct (map fst entries)"
    and "mapGet (Files manifest) = map_of entries"
  shows "locateFile manifest pkginfo =
           (case rangeFiles entries pkginfo of
              Panic \<Rightarrow> Panic
            | Return (fileInfo, filename) \<Rightarrow>
                (case fileInfo of
                   None \<Rightarrow> Return (Inl (FileNotFoundError pkginfo))
                 | Some fi \<Rightarrow> Return (Inr \<lparr>Name = filename, Info = fi\<rparr>)))"
proof (cases pkginfo)
  case None
  have "mapEmpty (Files manifest) \<longleftrightarrow> entries = []"
    using assms(2) by (simp add: mapEmpty_mapGet)
  with None show ?thesis
    by (simp add: locateFile_def rangeFiles_nil_pkginfo)
next
  case (Some p)
  show ?thesis
    unfolding Some rangeFiles_map_of [OF assms(1)] locateFile_Some assms(2)
    by (simp split: option.splits)
qed

text \<open>
  Claim C5, as amended. For every manifest and every variant, when the file table has the
  variant's file name with a non-null entry, \<open>locateFile\<close> returns the file whose name is
  that file name and whose info is that entry; when the table has no entry with that
  key, it fails with \<open>FileNotFoundError\<close>.
\<close>

theorem locateFile_present_or_absent:
  "(\<forall>fileInfo. mapGet (Files manifest) (FileName variant) = Some (Some fileInfo) \<longrightarrow>
      locateFile manifest (Some variant) =
        Return (Inr \<lparr>Name = FileName variant, Info = fileInfo\<rparr>))
   \<and> (mapGet (Files manifest) (FileName variant) = None \<longrightarrow>
      locateFile manifest (Some variant) = Return (Inl (FileNotFoundError (Some variant))))"
  by (simp add: locateFile_Some)

theorem locateFile_present_or_absent_witness:
  "mapGet (Files exManifest) (FileName exPkg) = Some (Some exFileInfo)
   \<and> locateFile exManifest (Some exPkg) = Return (Inr \<lparr>Name = ''pkg.zip'', Info = exFileInfo\<rparr>)
   \<and> mapGet (Files exManifest) (FileName \<lparr>FileName = ''other.zip''\<rparr>) = None
   \<and> locateFile exManifest (Some \<lparr>FileName = ''other.zip''\<rparr>) =
       Return (Inl (FileNotFoundError (Some \<lparr>FileName = ''other.zip''\<rparr>)))"
proof -
  have a: "mapGet (Files exManifest) (FileName exPkg) = Some (Some exFileInfo)"
    by (simp add: exManifest_def exPkg_def mapGet_def)
  have b: "mapGet (Files exManifest) (FileName \<lparr>FileName = ''other.zip''\<rparr>) = None"
    by (simp add: exManifest_def mapGet_def)
  have n: "FileName exPkg = ''pkg.zip''" by (simp add: exPkg_def)
  from locateFile_present_or_absent [of exManifest exPkg] a n
  have c: "locateFile exManifest (Some exPkg) = Return (Inr \<lparr>Name = ''pkg.zip'', Info = exFileInfo\<rparr>)"
    by simp
  from locateFile_present_or_absent [of exManifest "\<lparr>FileName = ''other.zip''\<rparr>"] b
  have d: "locateFile exManifest (Some \<lparr>FileName = ''other.zip''\<rparr>) =
       Return (Inl (FileNotFoundError (Some \<lparr>FileName = ''other.zip''\<rparr>)))"
    by blast
  from a b c d show ?thesis by blast
qed

text \<open>
  Claim C5 as stated fails: a key that is present with a null entry does not give a
  file.
\<close>

theorem locateFile_key_present_counterexample:
  "Files exNullFileManifest = Some [''pkg.zip'' \<mapsto> None]
   \<and> FileName exPkg = ''pkg.zip''
   \<and> mapGet (Files exNullFileManifest) (FileName exPkg) \<noteq> None
   \<and> locateFile exNullFileManifest (Some exPkg) =
       Return (Inl (FileNotFoundError (Some exPkg)))"
  by (simp add: locateFile_def exNullFileManifest_def exPkg_def mapGet_def)

text \<open>
  Claim C9. When the file table maps the variant's file name to a null entry,
  \<open>locateFile\<close> fails with \<open>FileNotFoundError\<close>, with the very result it gives on a table
  that lacks the key; and a file it returns always carries the non-null entry of the
  table.
\<close>

theorem locateFile_null_entry:
  "(mapGet (Files manifest) (FileName variant) = Some None \<longrightarrow>
      locateFile manifest (Some variant) = Return (Inl (FileNotFoundError (Some variant))))
   \<and> (mapGet (Files manifest) (FileName variant) = Some None
        \<and> mapGet (Files absent) (FileName variant) = None \<longrightarrow>
      locateFile manifest (Some variant) = locateFile absent (Some variant))
   \<and> (\<forall>file. locateFile manifest (Some variant) = Return (Inr file) \<longrightarrow>
        (\<exists>fileInfo. mapGet (Files manifest) (FileName variant) = Some (Some fileInfo)
                   \<and> file = \<lparr>Name = FileName variant, Info = fileInfo\<rparr>))"
  by (auto simp: locateFile_Some split: option.splits)

theorem locateFile_null_entry_witness:
  "mapGet (Files exNullFileManifest) (FileName exPkg) = Some None
   \<and> mapGet (Files (exNullFileManifest\<lparr>Files := None\<rparr>)) (FileName exPkg) = None
   \<and> locateFile exNullFileManifest (Some exPkg) = Return (Inl (FileNotFoundError (Some exPkg)))
   \<and> locateFile exNullFileManifest (Some exPkg)
       = locateFile (exNullFileManifest\<lparr>Files := None\<rparr>) (Some exPkg)
   \<and> locateFile exManifest (Some exPkg) = Return (Inr \<lparr>Name = ''pkg.zip'', Info = exFileInfo\<rparr>)
   \<and> mapGet (Files exManifest) (FileName exPkg) = Some (Some exFileInfo)"
proof -
  have a: "mapGet (Files exNullFileManifest) (FileName exPkg) = Some None"
    by (simp add: exNullFileManifest_def exPkg_def mapGet_def)
  have b: "mapGet (Files (exNullFileManifest\<lparr>Files := None\<rparr>)) (FileName exPkg) = None"
    by (simp add: mapGet_def)
  have c: "locateFile exManifest (Some exPkg) = Return (Inr \<lparr>Name = ''pkg.zip'', Info = exFileInfo\<rparr>)"
    by (simp add: locateFile_def exManifest_def exPkg_def mapGet_def)
  note t = locateFile_null_entry [of exNullFileManifest exPkg "exNullFileManifest\<lparr>Files := None\<rparr>"]
  from t a have d: "locateFile exNullFileManifest (Some exPkg) = Return (Inl (FileNotFoundError (Some exPkg)))"
    by blast
  from t a b have e: "locateFile exNullFileManifest (Some exPkg)
       = locateFile (exNullFileManifest\<lparr>Files := None\<rparr>) (Some exPkg)"
    by blast
  from locateFile_null_entry [of exManifest exPkg exManifest] c
  have f: "\<exists>fileInfo. mapGet (Files exManifest) (FileName exPkg) = Some (Some fileInfo)
                   \<and> \<lparr>Name = ''pkg.zip'', Info = exFileInfo\<rparr> = \<lparr>Name = FileName exPkg, Info = fileInfo\<rparr>"
    by blast
  then have g: "mapGet (Files exManifest) (FileName exPkg) = Some (Some exFileInfo)"
    by auto
  from a b c d e g show ?thesis by blast
qed

section \<open>Downloader: proofs\<close>

lemma downloadFile_reached:
  assumes "archive ds = Some ar"
    and "GetFileDownloadLocation ar f pn v = Inr url"
    and "Download lib \<lparr>SourceURL = url, SourceChecksums = Checksums (Info f)\<rparr> = (out, derr)"
  shows "downloadFile lib (Some ds) (Some f) pn v w =
           (if derr \<noteq> None \<or> LocalFilePath out = [] then Inl (DownloadError url derr)
            else Inr (LocalFilePath out),
            logCall (DownloadCall \<lparr>SourceURL = url, SourceChecksums = Checksums (Info f)\<rparr>)
              (logCall (GetFileDownloadLocationCall f pn v) w))"
  using assms by (simp add: downloadFile_def Let_def)

lemma downloadFile_not_reached:
  assumes "dso = None \<or> (\<exists>ds. dso = Some ds \<and> archive ds = None) \<or> fileo = None"
  shows "downloadFile lib dso fileo pn v w = (Inl MissingInputError, w)"
  using assms by (auto simp: downloadFile_def split: option.splits)

lemma downloadFile_location_fails:
  assumes "archive ds = Some ar" and "GetFileDownloadLocation ar f pn v = Inl e"
  shows "downloadFile lib (Some ds) (Some f) pn v w =
           (Inl (LocationError e), logCall (GetFileDownloadLocationCall f pn v) w)"
  using assms by (simp add: downloadFile_def Let_def)

lemma sublist_DownloadError_url: "sublist url (Error (DownloadError url derr))"
proof (cases derr)
  case None
  have "Error (DownloadError url derr)
          = ''failed to download installation package reliably, '' @ url @ []"
    using None by simp
  then show ?thesis unfolding sublist_def by blast
next
  case (Some d)
  have "Error (DownloadError url derr)
          = ''failed to download installation package reliably, '' @ url @ ('', '' @ d)"
    using Some by simp
  then show ?thesis unfolding sublist_def by blast
qed

lemma sublist_DownloadError_text: "sublist d (Error (DownloadError url (Some d)))"
proof -
  have "Error (DownloadError url (Some d))
          = (''failed to download installation package reliably, '' @ url @ '', '') @ d @ []"
    by simp
  then show ?thesis unfolding sublist_def by blast
qed

text \<open>
  Claim C8. \<open>downloadFile\<close> fails with \<open>DownloadError\<close> exactly when the downloader is
  reached and reports an error or returns an empty local path; the text of that error
  contains the source URL and, when the downloader gave an error, its text; otherwise
  the result is the downloader's local path.
\<close>

theorem downloadFile_DownloadError:
  "((\<exists>url d. fst (downloadFile lib dso fileo pn v w) = Inl (DownloadError url d)) \<longleftrightarrow>
      (\<exists>ds ar f url. dso = Some ds \<and> archive ds = Some ar \<and> fileo = Some f
         \<and> GetFileDownloadLocation ar f pn v = Inr url
         \<and> (snd (Download lib \<lparr>SourceURL = url, SourceChecksums = Checksums (Info f)\<rparr>) \<noteq> None
            \<or> LocalFilePath
                 (fst (Download lib \<lparr>SourceURL = url, SourceChecksums = Checksums (Info f)\<rparr>))
               = [])))
   \<and> (\<forall>ds ar f url out derr.
         dso = Some ds \<and> archive ds = Some ar \<and> fileo = Some f
         \<and> GetFileDownloadLocation ar f pn v = Inr url
         \<and> Download lib \<lparr>SourceURL = url, SourceChecksums = Checksums (Info f)\<rparr> = (out, derr)
         \<longrightarrow> fst (downloadFile lib dso fileo pn v w) =
               (if derr \<noteq> None \<or> LocalFilePath out = [] then Inl (DownloadError url derr)
                else Inr (LocalFilePath out))
             \<and> sublist url (Error (DownloadError url derr))
             \<and> (\<forall>d. derr = Some d \<longrightarrow> sublist d (Error (DownloadError url derr))))"
proof (intro conjI allI impI)
  show "(\<exists>url d. fst (downloadFile lib dso fileo pn v w) = Inl (DownloadError url d)) \<longleftrightarrow>
      (\<exists>ds ar f url. dso = Some ds \<and> archive ds = Some ar \<and> fileo = Some f
         \<and> GetFileDownloadLocation ar f pn v = Inr url
         \<and> (snd (Download lib \<lparr>SourceURL = url, SourceChecksums = Checksums (Info f)\<rparr>) \<noteq> None
            \<or> LocalFilePath
                 (fst (Download lib \<lparr>SourceURL = url, SourceChecksums = Checksums (Info f)\<rparr>))
               = []))"
    by (auto simp: downloadFile_def Let_def split: option.splits sum.splits prod.splits if_splits)
next
  fix ds ar f url out derr
  assume h: "dso = Some ds \<and> archive ds = Some ar \<and> fileo = Some f
         \<and> GetFileDownloadLocation ar f pn v = Inr url
         \<and> Download lib \<lparr>SourceURL = url, SourceChecksums = Checksums (Info f)\<rparr> = (out, derr)"
  then show "fst (downloadFile lib dso fileo pn v w) =
               (if derr \<noteq> None \<or> LocalFilePath out = [] then Inl (DownloadError url derr)
                else Inr (LocalFilePath out))"
    by (simp add: downloadFile_reached)
  show "sublist url (Error (DownloadError url derr))"
    by (rule sublist_DownloadError_url)
  fix d assume "derr = Some d"
  then show "sublist d (Error (DownloadError url derr))"
    by (simp only: sublist_DownloadError_text)
qed

theorem downloadFile_DownloadError_witness:
  "fst (downloadFile exFailLib (Some exService) (Some exFile) ''pkg'' ''1.0.0'' exWorld) =
     Inl (DownloadError ''https://example.com/pkg.zip'' (Some ''checksum mismatch''))
   \<and> sublist ''https://example.com/pkg.zip''
       (Error (DownloadError ''https://example.com/pkg.zip'' (Some ''checksum mismatch'')))
   \<and> sublist ''checksum mismatch''
       (Error (DownloadError ''https://example.com/pkg.zip'' (Some ''checksum mismatch'')))
   \<and> fst (downloadFile exLib (Some exService) (Some exFile) ''pkg'' ''1.0.0'' exWorld) =
       Inr ''/var/lib/pkg.zip''"
proof -
  have ar: "archive exService = Some exArchive"
    by (simp add: exService_def)
  have loc: "GetFileDownloadLocation exArchive exFile ''pkg'' ''1.0.0''
               = Inr ''https://example.com/pkg.zip''"
    by (simp add: exArchive_def exFile_def)
  have bad: "Download exFailLib
               \<lparr>SourceURL = ''https://example.com/pkg.zip'',
                SourceChecksums = Checksums (Info exFile)\<rparr>
             = (\<lparr>LocalFilePath = []\<rparr>, Some ''checksum mismatch'')"
    by (simp add: exFailLib_def)
  have good: "Download exLib
               \<lparr>SourceURL = ''https://example.com/pkg.zip'',
                SourceChecksums = Checksums (Info exFile)\<rparr>
             = (\<lparr>LocalFilePath = ''/var/lib/pkg.zip''\<rparr>, None)"
    by (simp add: exLib_def)
  from downloadFile_DownloadError
         [of exFailLib "Some exService" "Some exFile" "''pkg''" "''1.0.0''" exWorld,
          THEN conjunct2, rule_format,
          of exService exArchive exFile "''https://example.com/pkg.zip''"
             "\<lparr>LocalFilePath = []\<rparr>" "Some ''checksum mismatch''"]
       ar loc bad
  have a: "fst (downloadFile exFailLib (Some exService) (Some exFile) ''pkg'' ''1.0.0'' exWorld) =
     Inl (DownloadError ''https://example.com/pkg.zip'' (Some ''checksum mismatch''))
   \<and> sublist ''https://example.com/pkg.zip''
       (Error (DownloadError ''https://example.com/pkg.zip'' (Some ''checksum mismatch'')))
   \<and> sublist ''checksum mismatch''
       (Error (DownloadError ''https://example.com/pkg.zip'' (Some ''checksum mismatch'')))"
    by simp
  from downloadFile_DownloadError
         [of exLib "Some exService" "Some exFile" "''pkg''" "''1.0.0''" exWorld,
          THEN conjunct2, rule_format,
          of exService exArchive exFile "''https://example.com/pkg.zip''"
             "\<lparr>LocalFilePath = ''/var/lib/pkg.zip''\<rparr>" None]
       ar loc good
  have b: "fst (downloadFile exLib (Some exService) (Some exFile) ''pkg'' ''1.0.0'' exWorld) =
       Inr ''/var/lib/pkg.zip''"
    by simp
  from a b show ?thesis by blast
qed

section \<open>Manifest store: proofs\<close>

lemma readManifestFromCache_world:
  "snd (readManifestFromCache lib cache n v w) = logCall (ReadManifestCall n v) w"
  by (simp add: readManifestFromCache_def Let_def split: sum.splits)

lemma readManifestFromCache_store:
  "store w' = store w \<Longrightarrow>
   fst (readManifestFromCache lib cache n v w') = fst (readManifestFromCache lib cache n v w)"
  by (simp add: readManifestFromCache_def Let_def split: sum.splits)

lemma store_logCall [simp]: "store (logCall c w) = store w"
  by (simp add: logCall_def)

lemma calls_logCall [simp]: "calls (logCall c w) = calls w @ [c]"
  by (simp add: logCall_def)

text \<open>
  \<open>downloadManifest\<close> once the archive has answered and the answer has parsed: the
  flag, the result and the world it leaves.
\<close>

lemma downloadManifest_fetched:
  assumes "archive ds = Some ar"
    and "DownloadArchiveInfo ar pn v = Inr raw"
    and "parseManifest lib raw = Inr parsed"
  shows "downloadManifest lib (Some ds) pn v w =
           Return
             ((fst (readManifestFromCache lib (manifestCache ds)
                      (GetResourceArn ar parsed) (Version parsed) w) = Inr parsed,
               case fst (WriteManifest (manifestCache ds) (store w)
                           (GetResourceArn ar parsed) (Version parsed) raw) of
                 Some e \<Rightarrow> Inl (CacheWriteError e)
               | None \<Rightarrow> Inr parsed),
              \<lparr>store = snd (WriteManifest (manifestCache ds) (store w)
                              (GetResourceArn ar parsed) (Version parsed) raw),
               calls = calls w @
                 [DownloadArchiveInfoCall pn v,
                  ReadManifestCall (GetResourceArn ar parsed) (Version parsed),
                  WriteManifestCall (GetResourceArn ar parsed) (Version parsed) raw]\<rparr>)"
proof -
  let ?arn = "GetResourceArn ar parsed" and ?ver = "Version parsed"
  let ?w1 = "logCall (DownloadArchiveInfoCall pn v) w"
  obtain c w2 where rd: "readManifestFromCache lib (manifestCache ds) ?arn ?ver ?w1 = (c, w2)"
    by (cases "readManifestFromCache lib (manifestCache ds) ?arn ?ver ?w1")
  have w2: "w2 = logCall (ReadManifestCall ?arn ?ver) ?w1"
    using rd readManifestFromCache_world [of lib "manifestCache ds" ?arn ?ver ?w1] by simp
  have c: "c = fst (readManifestFromCache lib (manifestCache ds) ?arn ?ver w)"
    using rd readManifestFromCache_store [of ?w1 w lib "manifestCache ds" ?arn ?ver] by simp
  obtain werr st where wr: "WriteManifest (manifestCache ds) (store w) ?arn ?ver raw = (werr, st)"
    by (cases "WriteManifest (manifestCache ds) (store w) ?arn ?ver raw")
  have flag: "(case c of Inl x \<Rightarrow> False | Inr cached \<Rightarrow> parsed = cached) = (c = Inr parsed)"
    by (cases c) auto
  show ?thesis
    using assms rd wr
    by (cases werr)
       (simp_all add: downloadManifest_def Let_def writeManifestToCache_def w2 flag
          logCall_def c [symmetric])
qed

text \<open>
  Claim C2. Whenever the fresh manifest has been fetched and parsed, the flag that
  \<open>downloadManifest\<close> (and \<open>DownloadManifest\<close>) returns is true if and only if reading
  and parsing the cache under the manifest's own (resource identifier, version) gives a
  manifest equal to the parsed one; when that read or parse fails the flag is false and
  the operation still succeeds if the write does.
\<close>

theorem isSameAsCache_iff_cached_equal:
  assumes "archive ds = Some ar"
    and "DownloadArchiveInfo ar pn v = Inr raw"
    and "parseManifest lib raw = Inr parsed"
    and "cachedManifest = fst (readManifestFromCache lib (manifestCache ds)
                                 (GetResourceArn ar parsed) (Version parsed) w)"
  shows "\<exists>flag r w'.
           downloadManifest lib (Some ds) pn v w = Return ((flag, r), w')
         \<and> (\<exists>arn ver err. DownloadManifest lib ds pn v w = Return ((arn, ver, flag, err), w'))
         \<and> (flag \<longleftrightarrow> (\<exists>cached. cachedManifest = Inr cached \<and> cached = parsed))
         \<and> (isl cachedManifest \<longrightarrow>
               \<not> flag
             \<and> (r = Inr parsed \<longleftrightarrow>
                  fst (WriteManifest (manifestCache ds) (store w)
                         (GetResourceArn ar parsed) (Version parsed) raw) = None))"
proof -
  note dm = downloadManifest_fetched [OF assms(1-3), of w]
  show ?thesis
    unfolding DownloadManifest_def dm
    using assms(1,4)
    by (auto split: option.splits sum.splits)
qed

text \<open>
  Claim C6. Whenever the fresh manifest has been fetched and parsed, \<open>downloadManifest\<close>
  writes the fetched bytes to the cache under (resource identifier, parsed version),
  whatever the comparison with the cached manifest gave, and its result is
  \<open>CacheWriteError\<close> exactly when that write fails.
\<close>

theorem write_manifest_unconditional:
  assumes "archive ds = Some ar"
    and "DownloadArchiveInfo ar pn v = Inr raw"
    and "parseManifest lib raw = Inr parsed"
    and "written = WriteManifest (manifestCache ds) (store w)
                     (GetResourceArn ar parsed) (Version parsed) raw"
  shows "\<exists>flag r w'.
           downloadManifest lib (Some ds) pn v w = Return ((flag, r), w')
         \<and> calls w' = calls w @
             [DownloadArchiveInfoCall pn v,
              ReadManifestCall (GetResourceArn ar parsed) (Version parsed),
              WriteManifestCall (GetResourceArn ar parsed) (Version parsed) raw]
         \<and> store w' = snd written
         \<and> r = (case fst written of Some e \<Rightarrow> Inl (CacheWriteError e) | None \<Rightarrow> Inr parsed)
         \<and> ((\<exists>e. r = Inl (CacheWriteError e)) \<longleftrightarrow> fst written \<noteq> None)
         \<and> (isl r \<longleftrightarrow> fst written \<noteq> None)"
proof -
  note dm = downloadManifest_fetched [OF assms(1-3), of w]
  show ?thesis
    unfolding dm using assms(4)
    by (auto split: option.splits)
qed

lemma ex_fetch:
  "archive exService = Some exArchive"
  "DownloadArchiveInfo exArchive ''pkg'' ''latest'' = Inr ''{manifest}''"
  "parseManifest exLib ''{manifest}'' = Inr exManifest"
  "GetResourceArn exArchive exManifest = exArn"
  "Version exManifest = ''1.0.0''"
  "manifestCache exService = kvCache"
  by (simp_all add: exService_def exArchive_def parseManifest_def exLib_def exManifest_def)

lemma ex_cached_read:
  "fst (readManifestFromCache exLib kvCache exArn ''1.0.0'' exCachedWorld) = Inr exManifest"
  by (simp add: readManifestFromCache_def kvCache_def exCachedWorld_def parseManifest_def
        exLib_def Let_def)

lemma ex_empty_read:
  "fst (readManifestFromCache exLib kvCache n v exWorld) = Inl (CacheMissError ''manifest not found'')"
  by (simp add: readManifestFromCache_def kvCache_def exWorld_def Let_def)

theorem isSameAsCache_iff_cached_equal_witness:
  "archive exService = Some exArchive
   \<and> DownloadArchiveInfo exArchive ''pkg'' ''latest'' = Inr ''{manifest}''
   \<and> parseManifest exLib ''{manifest}'' = Inr exManifest
   \<and> fst (readManifestFromCache exLib kvCache exArn ''1.0.0'' exCachedWorld) = Inr exManifest
   \<and> (\<exists>r w'. downloadManifest exLib (Some exService) ''pkg'' ''latest'' exCachedWorld =
                Return ((True, r), w'))
   \<and> isl (fst (readManifestFromCache exLib kvCache exArn ''1.0.0'' exWorld))
   \<and> (\<exists>w'. downloadManifest exLib (Some exService) ''pkg'' ''latest'' exWorld =
              Return ((False, Inr exManifest), w'))"
proof -
  have hit: "\<exists>r w'. downloadManifest exLib (Some exService) ''pkg'' ''latest'' exCachedWorld =
                Return ((True, r), w')"
    using isSameAsCache_iff_cached_equal
            [OF ex_fetch(1) ex_fetch(2) ex_fetch(3) refl, of exCachedWorld]
          ex_cached_read
    by (auto simp: ex_fetch)
  have wr: "fst (WriteManifest kvCache (store exWorld) exArn ''1.0.0'' ''{manifest}'') = None"
    by (simp add: kvCache_def)
  have miss: "\<exists>w'. downloadManifest exLib (Some exService) ''pkg'' ''latest'' exWorld =
              Return ((False, Inr exManifest), w')"
    using isSameAsCache_iff_cached_equal
            [OF ex_fetch(1) ex_fetch(2) ex_fetch(3) refl, of exWorld]
          ex_empty_read [of exArn "''1.0.0''"] wr
    by (auto simp: ex_fetch)
  from hit miss ex_fetch(1-3) ex_cached_read ex_empty_read [of exArn "''1.0.0''"]
  show ?thesis by simp
qed

theorem write_manifest_unconditional_witness:
  "archive exService = Some exArchive
   \<and> DownloadArchiveInfo exArchive ''pkg'' ''latest'' = Inr ''{manifest}''
   \<and> parseManifest exLib ''{manifest}'' = Inr exManifest
   \<and> fst (readManifestFromCache exLib kvCache exArn ''1.0.0'' exCachedWorld) = Inr exManifest
   \<and> (\<exists>flag w'. downloadManifest exLib (Some exService) ''pkg'' ''latest'' exCachedWorld =
                   Return ((flag, Inr exManifest), w')
        \<and> calls w' = [DownloadArchiveInfoCall ''pkg'' ''latest'',
                       ReadManifestCall exArn ''1.0.0'',
                       WriteManifestCall exArn ''1.0.0'' ''{manifest}'']
        \<and> store w' = [(exArn, ''1.0.0'') \<mapsto> ''{manifest}''])
   \<and> (\<exists>flag w'. downloadManifest exLib (Some (exService\<lparr>manifestCache := failingCache\<rparr>))
                     ''pkg'' ''latest'' exWorld =
                   Return ((flag, Inl (CacheWriteError ''permission denied'')), w')
        \<and> store w' = Map.empty)"
proof -
  have a: "\<exists>flag w'. downloadManifest exLib (Some exService) ''pkg'' ''latest'' exCachedWorld =
                   Return ((flag, Inr exManifest), w')
        \<and> calls w' = [DownloadArchiveInfoCall ''pkg'' ''latest'',
                       ReadManifestCall exArn ''1.0.0'',
                       WriteManifestCall exArn ''1.0.0'' ''{manifest}'']
        \<and> store w' = [(exArn, ''1.0.0'') \<mapsto> ''{manifest}'']"
    using write_manifest_unconditional
            [OF ex_fetch(1) ex_fetch(2) ex_fetch(3) refl, of exCachedWorld]
    by (auto simp: ex_fetch kvCache_def exCachedWorld_def)
  have ar: "archive (exService\<lparr>manifestCache := failingCache\<rparr>) = Some exArchive"
    by (simp add: exService_def)
  have b: "\<exists>flag w'. downloadManifest exLib (Some (exService\<lparr>manifestCache := failingCache\<rparr>))
                     ''pkg'' ''latest'' exWorld =
                   Return ((flag, Inl (CacheWriteError ''permission denied'')), w')
        \<and> store w' = Map.empty"
    using write_manifest_unconditional
            [OF ar ex_fetch(2) ex_fetch(3) refl, of exWorld]
    by (auto simp: ex_fetch failingCache_def exWorld_def)
  from a b ex_fetch(1-3) ex_cached_read show ?thesis by simp
qed

section \<open>Artifact download: proofs\<close>

lemma extractPackageInfo_world:
  "extractPackageInfo ds manifest w = Return (r, w') \<Longrightarrow> w' = logCall CollectDataCall w"
  by (auto simp: extractPackageInfo_def Let_def split: option.splits prod.splits if_splits)

lemma findFileFromManifest_world:
  assumes "findFileFromManifest ds manifest w = Return (r, w')"
  shows "w' = logCall CollectDataCall w"
proof (cases "extractPackageInfo ds manifest w")
  case Panic
  with assms show ?thesis by (simp add: findFileFromManifest_def)
next
  case (Return x)
  obtain e w1 where x: "x = (e, w1)" by (cases x)
  have w1: "w1 = logCall CollectDataCall w"
    using Return x by (simp add: extractPackageInfo_world)
  show ?thesis
    using assms Return x w1
    by (auto simp: findFileFromManifest_def split: sum.splits outcome.splits)
qed

lemma downloadFile_world:
  assumes "downloadFile lib dso fileo pn v w = (r, w')"
  shows "store w' = store w
       \<and> (\<exists>cs. calls w' = calls w @ cs \<and> (\<forall>c\<in>set cs. \<not> isManifestFetch c))"
  using assms
  by (auto simp: downloadFile_def Let_def split: option.splits sum.splits prod.splits if_splits)

lemma downloadFromManifest_world:
  assumes "downloadFromManifest lib ds manifest pn v w = Return (r, w')"
  shows "store w' = store w
       \<and> (\<exists>cs. calls w' = calls w @ cs \<and> (\<forall>c\<in>set cs. \<not> isManifestFetch c))"
proof (cases "findFileFromManifest ds manifest w")
  case Panic
  with assms show ?thesis by (simp add: downloadFromManifest_def)
next
  case (Return x)
  obtain e w1 where x: "x = (e, w1)" by (cases x)
  have w1: "w1 = logCall CollectDataCall w"
    using Return x by (simp add: findFileFromManifest_world)
  show ?thesis
  proof (cases e)
    case (Inl err)
    with assms Return x w1 show ?thesis
      by (auto simp: downloadFromManifest_def)
  next
    case (Inr f)
    with assms Return x
    have df: "downloadFile lib (Some ds) (Some f) pn v w1 = (r, w')"
      by (simp add: downloadFromManifest_def)
    from downloadFile_world [OF df] obtain cs where
      "store w' = store w1" "calls w' = calls w1 @ cs" "\<forall>c\<in>set cs. \<not> isManifestFetch c"
      by blast
    with w1 have "store w' = store w" "calls w' = calls w @ (CollectDataCall # cs)"
      "\<forall>c\<in>set (CollectDataCall # cs). \<not> isManifestFetch c"
      by simp_all
    then show ?thesis by blast
  qed
qed

lemma downloadManifest_world:
  assumes "downloadManifest lib dso pn v w = Return (x, w')"
  shows "\<exists>cs. calls w' = calls w @ cs \<and> (\<forall>c\<in>set cs. \<not> isSelectionOrDownload c)"
  using assms
  by (auto simp: downloadManifest_def Let_def writeManifestToCache_def
        readManifestFromCache_def
      split: option.splits sum.splits prod.splits if_splits)

lemma downloadManifest_first_call:
  assumes "archive ds = Some ar"
    and "downloadManifest lib (Some ds) pn v w = Return (x, w')"
  shows "\<exists>cs. calls w' = calls w @ DownloadArchiveInfoCall pn v # cs"
  using assms
  by (auto simp: downloadManifest_def Let_def writeManifestToCache_def
        readManifestFromCache_def
      split: option.splits sum.splits prod.splits if_splits)

text \<open>
  Claim C7. \<open>DownloadArtifact\<close> first reads and parses the cache under the
  caller-supplied (package name, version). When that gives a manifest, it goes on with
  it and fetches no manifest; when the read or the parse fails (and the archive is there),
  its next call fetches the manifest from the archive; and when that fresh download
  fails too, the operation fails, having made no call that selects or downloads a file.
\<close>

theorem DownloadArtifact_cache_first:
  "(\<forall>manifest.
      fst (readManifestFromCache lib (manifestCache ds) pn v w) = Inr manifest \<longrightarrow>
        DownloadArtifact lib ds pn v w =
          downloadFromManifest lib ds manifest pn v (logCall (ReadManifestCall pn v) w)
      \<and> (\<forall>r w'. DownloadArtifact lib ds pn v w = Return (r, w') \<longrightarrow>
            (\<exists>cs. calls w' = calls w @ ReadManifestCall pn v # cs
                 \<and> (\<forall>c\<in>set cs. \<not> isManifestFetch c))))
   \<and> (\<forall>e ar r w'.
        fst (readManifestFromCache lib (manifestCache ds) pn v w) = Inl e
        \<and> archive ds = Some ar
        \<and> DownloadArtifact lib ds pn v w = Return (r, w') \<longrightarrow>
          (\<exists>cs. calls w' = calls w @ ReadManifestCall pn v # DownloadArchiveInfoCall pn v # cs))
   \<and> (\<forall>e flag err w2.
        fst (readManifestFromCache lib (manifestCache ds) pn v w) = Inl e
        \<and> downloadManifest lib (Some ds) pn v (logCall (ReadManifestCall pn v) w) =
            Return ((flag, Inl err), w2) \<longrightarrow>
          DownloadArtifact lib ds pn v w = Return (Inl (ManifestDownloadError err), w2)
        \<and> (\<exists>cs. calls w2 = calls w @ cs \<and> (\<forall>c\<in>set cs. \<not> isSelectionOrDownload c)))"
proof -
  let ?w1 = "logCall (ReadManifestCall pn v) w"
  obtain c where rd: "readManifestFromCache lib (manifestCache ds) pn v w = (c, ?w1)"
    using readManifestFromCache_world [of lib "manifestCache ds" pn v w]
    by (cases "readManifestFromCache lib (manifestCache ds) pn v w") simp
  have hit: "DownloadArtifact lib ds pn v w = downloadFromManifest lib ds manifest pn v ?w1
      \<and> (\<forall>r w'. DownloadArtifact lib ds pn v w = Return (r, w') \<longrightarrow>
            (\<exists>cs. calls w' = calls w @ ReadManifestCall pn v # cs
                 \<and> (\<forall>c\<in>set cs. \<not> isManifestFetch c)))"
    if "c = Inr manifest" for manifest
  proof -
    have eq: "DownloadArtifact lib ds pn v w = downloadFromManifest lib ds manifest pn v ?w1"
      using rd that by (simp add: DownloadArtifact_def)
    have "\<exists>cs. calls w' = calls w @ ReadManifestCall pn v # cs
                 \<and> (\<forall>c\<in>set cs. \<not> isManifestFetch c)"
      if "DownloadArtifact lib ds pn v w = Return (r, w')" for r w'
      using downloadFromManifest_world [of lib ds manifest pn v ?w1 r w'] that eq by auto
    with eq show ?thesis by blast
  qed
  have miss: "\<exists>cs. calls w' = calls w @ ReadManifestCall pn v # DownloadArchiveInfoCall pn v # cs"
    if "c = Inl e" "archive ds = Some ar" "DownloadArtifact lib ds pn v w = Return (r, w')"
    for e ar r w'
  proof (cases "downloadManifest lib (Some ds) pn v ?w1")
    case Panic
    with rd that show ?thesis by (simp add: DownloadArtifact_def)
  next
    case (Return x)
    obtain flag res w2 where x: "x = ((flag, res), w2)" by (cases x) auto
    from downloadManifest_first_call [OF that(2), of lib pn v ?w1 "(flag, res)" w2] Return x
    obtain cs where cs: "calls w2 = calls w @ ReadManifestCall pn v # DownloadArchiveInfoCall pn v # cs"
      by auto
    show ?thesis
    proof (cases res)
      case (Inl err)
      with rd that Return x have "w' = w2" by (simp add: DownloadArtifact_def)
      with cs show ?thesis by blast
    next
      case (Inr manifest)
      with rd that Return x
      have "downloadFromManifest lib ds manifest pn v w2 = Return (r, w')"
        by (simp add: DownloadArtifact_def)
      from downloadFromManifest_world [OF this] cs show ?thesis by auto
    qed
  qed
  have both: "DownloadArtifact lib ds pn v w = Return (Inl (ManifestDownloadError err), w2)
        \<and> (\<exists>cs. calls w2 = calls w @ cs \<and> (\<forall>c\<in>set cs. \<not> isSelectionOrDownload c))"
    if "c = Inl e"
      "downloadManifest lib (Some ds) pn v ?w1 = Return ((flag, Inl err), w2)"
    for e flag err w2
  proof -
    have r: "DownloadArtifact lib ds pn v w = Return (Inl (ManifestDownloadError err), w2)"
      using rd that by (simp add: DownloadArtifact_def)
    from downloadManifest_world [OF that(2)] obtain cs where
      "calls w2 = calls ?w1 @ cs" "\<forall>c\<in>set cs. \<not> isSelectionOrDownload c" by blast
    then have "calls w2 = calls w @ (ReadManifestCall pn v # cs)"
      "\<forall>c\<in>set (ReadManifestCall pn v # cs). \<not> isSelectionOrDownload c"
      by simp_all
    with r show ?thesis by blast
  qed
  have c: "fst (readManifestFromCache lib (manifestCache ds) pn v w) = c"
    using rd by simp
  show ?thesis
    unfolding c using hit miss both by blast
qed

lemma ex_downloadFromManifest:
  "downloadFromManifest exLib exService exManifest n v w =
     Return (Inr ''/var/lib/pkg.zip'',
       w\<lparr>calls := calls w @
           [CollectDataCall, GetFileDownloadLocationCall exFile n v,
            DownloadCall \<lparr>SourceURL = ''https://example.com/pkg.zip'',
                          SourceChecksums = Checksums exFileInfo\<rparr>]\<rparr>)"
proof -
  have c: "collector exService = (Some exEnv, None)"
    by (simp add: exService_def)
  have r: "resolveVariant exManifest ''linux'' ''5.0'' ''x86_64'' = Inr (Some exPkg)"
    by (simp add: resolveVariant_def selectKey_def mapIndex_def mapGet_def exManifest_def)
  have e: "extractPackageInfo exService exManifest w =
             Return (Inr (Some exPkg), logCall CollectDataCall w)"
    using extractPackageInfo_eq [OF c, of exManifest w] r by (simp add: exEnv_def)
  have l: "locateFile exManifest (Some exPkg) = Return (Inr exFile)"
    by (simp add: locateFile_def exManifest_def exPkg_def mapGet_def exFile_def)
  have f: "findFileFromManifest exService exManifest w =
             Return (Inr exFile, logCall CollectDataCall w)"
    by (simp add: findFileFromManifest_def e l)
  have ar: "archive exService = Some exArchive"
    by (simp add: exService_def)
  have loc: "GetFileDownloadLocation exArchive exFile n v = Inr ''https://example.com/pkg.zip''"
    by (simp add: exArchive_def exFile_def)
  have d: "Download exLib \<lparr>SourceURL = ''https://example.com/pkg.zip'',
                            SourceChecksums = Checksums (Info exFile)\<rparr>
             = (\<lparr>LocalFilePath = ''/var/lib/pkg.zip''\<rparr>, None)"
    by (simp add: exLib_def)
  have i: "Info exFile = exFileInfo"
    by (simp add: exFile_def)
  show ?thesis
    by (simp add: downloadFromManifest_def f downloadFile_reached [OF ar loc d] logCall_def i)
qed

theorem DownloadArtifact_cache_first_witness:
  "fst (readManifestFromCache exLib (manifestCache exService) ''pkg'' ''1.0.0'' exHitWorld)
     = Inr exManifest
   \<and> DownloadArtifact exLib exService ''pkg'' ''1.0.0'' exHitWorld =
       Return (Inr ''/var/lib/pkg.zip'',
         \<lparr>store = [(''pkg'', ''1.0.0'') \<mapsto> ''{manifest}''],
          calls = [ReadManifestCall ''pkg'' ''1.0.0'', CollectDataCall,
                   GetFileDownloadLocationCall exFile ''pkg'' ''1.0.0'',
                   DownloadCall \<lparr>SourceURL = ''https://example.com/pkg.zip'',
                                 SourceChecksums = Checksums exFileInfo\<rparr>]\<rparr>)
   \<and> fst (readManifestFromCache exLib (manifestCache exService) ''missing'' ''latest'' exWorld)
       = Inl (CacheMissError ''manifest not found'')
   \<and> downloadManifest exLib (Some exService) ''missing'' ''latest''
         (logCall (ReadManifestCall ''missing'' ''latest'') exWorld) =
       Return ((False, Inl (BackendError ''package not found'')),
         \<lparr>store = Map.empty,
          calls = [ReadManifestCall ''missing'' ''latest'',
                   DownloadArchiveInfoCall ''missing'' ''latest'']\<rparr>)
   \<and> DownloadArtifact exLib exService ''missing'' ''latest'' exWorld =
       Return (Inl (ManifestDownloadError (BackendError ''package not found'')),
         \<lparr>store = Map.empty,
          calls = [ReadManifestCall ''missing'' ''latest'',
                   DownloadArchiveInfoCall ''missing'' ''latest'']\<rparr>)"
proof -
  have hit: "fst (readManifestFromCache exLib (manifestCache exService) ''pkg'' ''1.0.0'' exHitWorld)
     = Inr exManifest"
    by (simp add: readManifestFromCache_def exService_def kvCache_def exHitWorld_def
          parseManifest_def exLib_def Let_def)
  have miss: "fst (readManifestFromCache exLib (manifestCache exService) ''missing'' ''latest'' exWorld)
       = Inl (CacheMissError ''manifest not found'')"
    by (simp add: ex_fetch ex_empty_read)
  have dm: "downloadManifest exLib (Some exService) ''missing'' ''latest''
         (logCall (ReadManifestCall ''missing'' ''latest'') exWorld) =
       Return ((False, Inl (BackendError ''package not found'')),
         \<lparr>store = Map.empty,
          calls = [ReadManifestCall ''missing'' ''latest'',
                   DownloadArchiveInfoCall ''missing'' ''latest'']\<rparr>)"
    by (simp add: downloadManifest_def exService_def exArchive_def exWorld_def logCall_def)
  note t = DownloadArtifact_cache_first [of exLib exService "''pkg''" "''1.0.0''" exHitWorld]
  from t hit have "DownloadArtifact exLib exService ''pkg'' ''1.0.0'' exHitWorld =
          downloadFromManifest exLib exService exManifest ''pkg'' ''1.0.0''
            (logCall (ReadManifestCall ''pkg'' ''1.0.0'') exHitWorld)"
    by blast
  then have a: "DownloadArtifact exLib exService ''pkg'' ''1.0.0'' exHitWorld =
       Return (Inr ''/var/lib/pkg.zip'',
         \<lparr>store = [(''pkg'', ''1.0.0'') \<mapsto> ''{manifest}''],
          calls = [ReadManifestCall ''pkg'' ''1.0.0'', CollectDataCall,
                   GetFileDownloadLocationCall exFile ''pkg'' ''1.0.0'',
                   DownloadCall \<lparr>SourceURL = ''https://example.com/pkg.zip'',
                                 SourceChecksums = Checksums exFileInfo\<rparr>]\<rparr>)"
    by (simp add: ex_downloadFromManifest exHitWorld_def logCall_def)
  note u = DownloadArtifact_cache_first [of exLib exService "''missing''" "''latest''" exWorld]
  from u miss dm have b: "DownloadArtifact exLib exService ''missing'' ''latest'' exWorld =
       Return (Inl (ManifestDownloadError (BackendError ''package not found'')),
         \<lparr>store = Map.empty,
          calls = [ReadManifestCall ''missing'' ''latest'',
                   DownloadArchiveInfoCall ''missing'' ''latest'']\<rparr>)"
    by blast
  from hit a miss dm b show ?thesis by blast
qed

section \<open>Cache keys: proofs\<close>

lemma readManifestFromCache_fst:
  "fst (readManifestFromCache lib cache n v w) =
     (case ReadManifest cache (store w) n v of
        Inl err \<Rightarrow> Inl (CacheMissError err)
      | Inr data \<Rightarrow> parseManifest lib data)"
  by (simp add: readManifestFromCache_def Let_def split: sum.splits)

lemma keyLocal_read:
  assumes "keyLocal cache" and "n' \<noteq> n \<or> v' \<noteq> v"
  shows "ReadManifest cache (snd (WriteManifest cache st n v data)) n' v' =
         ReadManifest cache st n' v'"
  using assms unfolding keyLocal_def by simp

lemma keyLocal_kvCache: "keyLocal kvCache"
  by (simp add: keyLocal_def kvCache_def)

text \<open>
  Claim C10. \<open>DownloadArtifact\<close> reads the cache under the caller-supplied
  (package name, version); the fresh download it falls back to writes under
  (resource identifier of the parsed manifest, version of the parsed manifest). On a
  key-value cache, when the two keys differ, the read under the caller's key fails after
  the fresh download as it failed before it, also at the end of \<open>DownloadArtifact\<close>.
\<close>

theorem fresh_download_leaves_requested_key:
  assumes "keyLocal (manifestCache ds)"
    and "fst (readManifestFromCache lib (manifestCache ds) pn v w) = Inl e"
    and "archive ds = Some ar"
    and "DownloadArchiveInfo ar pn v = Inr raw"
    and "parseManifest lib raw = Inr parsed"
    and "GetResourceArn ar parsed \<noteq> pn \<or> Version parsed \<noteq> v"
  shows "(\<exists>flag r w2.
            downloadManifest lib (Some ds) pn v (logCall (ReadManifestCall pn v) w) =
              Return ((flag, r), w2)
          \<and> calls w2 = calls w @
               [ReadManifestCall pn v, DownloadArchiveInfoCall pn v,
                ReadManifestCall (GetResourceArn ar parsed) (Version parsed),
                WriteManifestCall (GetResourceArn ar parsed) (Version parsed) raw]
          \<and> fst (readManifestFromCache lib (manifestCache ds) pn v w2) = Inl e)
       \<and> (\<forall>r w'. DownloadArtifact lib ds pn v w = Return (r, w') \<longrightarrow>
             fst (readManifestFromCache lib (manifestCache ds) pn v w') = Inl e)"
proof -
  let ?w1 = "logCall (ReadManifestCall pn v) w"
  let ?arn = "GetResourceArn ar parsed" and ?ver = "Version parsed"
  let ?st = "snd (WriteManifest (manifestCache ds) (store w) ?arn ?ver raw)"
  note dm = downloadManifest_fetched [OF assms(3-5), of ?w1]
  define res where "res = (case fst (WriteManifest (manifestCache ds) (store w) ?arn ?ver raw) of
                             Some e \<Rightarrow> Inl (CacheWriteError e)
                           | None \<Rightarrow> Inr parsed)"
  define w2 where "w2 = \<lparr>store = ?st,
                         calls = calls w @
                           [ReadManifestCall pn v, DownloadArchiveInfoCall pn v,
                            ReadManifestCall ?arn ?ver, WriteManifestCall ?arn ?ver raw]\<rparr>"
  have st: "store w2 = ?st"
    and cs: "calls w2 = calls w @
               [ReadManifestCall pn v, DownloadArchiveInfoCall pn v,
                ReadManifestCall ?arn ?ver, WriteManifestCall ?arn ?ver raw]"
    by (simp_all add: w2_def)
  obtain flag where
    run: "downloadManifest lib (Some ds) pn v ?w1 = Return ((flag, res), w2)"
    using dm by (simp add: res_def w2_def)
  have same: "ReadManifest (manifestCache ds) ?st pn v = ReadManifest (manifestCache ds) (store w) pn v"
    using keyLocal_read [OF assms(1), of pn ?arn v ?ver "store w" raw] assms(6) by blast
  have still: "fst (readManifestFromCache lib (manifestCache ds) pn v w') = Inl e"
    if "store w' = ?st" for w'
    using assms(2) that same by (simp add: readManifestFromCache_fst)
  have first: "\<exists>flag r w2.
            downloadManifest lib (Some ds) pn v ?w1 = Return ((flag, r), w2)
          \<and> calls w2 = calls w @
               [ReadManifestCall pn v, DownloadArchiveInfoCall pn v,
                ReadManifestCall ?arn ?ver, WriteManifestCall ?arn ?ver raw]
          \<and> fst (readManifestFromCache lib (manifestCache ds) pn v w2) = Inl e"
    using run cs still [OF st] by blast
  have rd: "readManifestFromCache lib (manifestCache ds) pn v w = (Inl e, ?w1)"
    using assms(2) readManifestFromCache_world [of lib "manifestCache ds" pn v w]
    by (cases "readManifestFromCache lib (manifestCache ds) pn v w") simp
  have last: "fst (readManifestFromCache lib (manifestCache ds) pn v w') = Inl e"
    if da: "DownloadArtifact lib ds pn v w = Return (r, w')" for r w'
  proof (cases res)
    case (Inl err)
    with da rd run have "w' = w2" by (simp add: DownloadArtifact_def)
    with st show ?thesis by (simp add: still)
  next
    case (Inr manifest)
    with da rd run have "downloadFromManifest lib ds manifest pn v w2 = Return (r, w')"
      by (simp add: DownloadArtifact_def)
    from downloadFromManifest_world [OF this] st have "store w' = ?st" by simp
    then show ?thesis by (rule still)
  qed
  from first last show ?thesis by blast
qed

theorem fresh_download_leaves_requested_key_witness:
  "keyLocal (manifestCache exService)
   \<and> fst (readManifestFromCache exLib (manifestCache exService) ''pkg'' ''latest'' exWorld)
       = Inl (CacheMissError ''manifest not found'')
   \<and> archive exService = Some exArchive
   \<and> DownloadArchiveInfo exArchive ''pkg'' ''latest'' = Inr ''{manifest}''
   \<and> parseManifest exLib ''{manifest}'' = Inr exManifest
   \<and> GetResourceArn exArchive exManifest \<noteq> ''pkg''
   \<and> Version exManifest \<noteq> ''latest''
   \<and> (\<exists>w'. DownloadArtifact exLib exService ''pkg'' ''latest'' exWorld =
              Return (Inr ''/var/lib/pkg.zip'', w')
           \<and> store w' = [(exArn, ''1.0.0'') \<mapsto> ''{manifest}'']
           \<and> fst (readManifestFromCache exLib (manifestCache exService) ''pkg'' ''latest'' w')
               = Inl (CacheMissError ''manifest not found''))"
proof -
  have k: "keyLocal (manifestCache exService)"
    by (simp add: ex_fetch keyLocal_kvCache)
  have miss: "fst (readManifestFromCache exLib (manifestCache exService) ''pkg'' ''latest'' exWorld)
       = Inl (CacheMissError ''manifest not found'')"
    by (simp add: ex_fetch ex_empty_read)
  have ne: "GetResourceArn exArchive exManifest \<noteq> ''pkg''" "Version exManifest \<noteq> ''latest''"
    by (simp_all add: ex_fetch exArn_def)
  then have ne': "GetResourceArn exArchive exManifest \<noteq> ''pkg'' \<or> Version exManifest \<noteq> ''latest''"
    by blast
  note dm = downloadManifest_fetched [OF ex_fetch(1) ex_fetch(2) ex_fetch(3),
              of "logCall (ReadManifestCall ''pkg'' ''latest'') exWorld"]
  have rd: "readManifestFromCache exLib (manifestCache exService) ''pkg'' ''latest'' exWorld
              = (Inl (CacheMissError ''manifest not found''),
                 logCall (ReadManifestCall ''pkg'' ''latest'') exWorld)"
    using miss readManifestFromCache_world [of exLib "manifestCache exService" "''pkg''" "''latest''" exWorld]
    by (cases "readManifestFromCache exLib (manifestCache exService) ''pkg'' ''latest'' exWorld") simp
  have wr: "WriteManifest (manifestCache exService) (store exWorld)
              (GetResourceArn exArchive exManifest) (Version exManifest) ''{manifest}''
            = (None, [(exArn, ''1.0.0'') \<mapsto> ''{manifest}''])"
    by (simp add: ex_fetch kvCache_def exWorld_def)
  have run: "\<exists>w'. DownloadArtifact exLib exService ''pkg'' ''latest'' exWorld =
              Return (Inr ''/var/lib/pkg.zip'', w')
           \<and> store w' = [(exArn, ''1.0.0'') \<mapsto> ''{manifest}'']"
    by (simp add: DownloadArtifact_def rd dm wr ex_downloadFromManifest)
  then obtain w' where w': "DownloadArtifact exLib exService ''pkg'' ''latest'' exWorld =
              Return (Inr ''/var/lib/pkg.zip'', w')"
      "store w' = [(exArn, ''1.0.0'') \<mapsto> ''{manifest}'']"
    by blast
  from fresh_download_leaves_requested_key
         [OF k miss ex_fetch(1) ex_fetch(2) ex_fetch(3) ne'] w'(1)
  have "fst (readManifestFromCache exLib (manifestCache exService) ''pkg'' ''latest'' w')
               = Inl (CacheMissError ''manifest not found'')"
    by blast
  with w' k miss ne ex_fetch(1-3) show ?thesis by blast
qed

section \<open>Result reporter: proofs\<close>

lemma appendSteps_map:
  "appendSteps start ts steps =
     steps @ map (\<lambda>t. \<lparr>Action = Operation t, Result = Exitcode t,
                        StepTiming = div64 (Timing t - start) 1000000\<rparr>) ts"
  by (induction ts arbitrary: steps) (simp_all add: Let_def)

lemma sdiv_million_eq:
  fixes x :: int
  shows "x sdiv 1000000 = (if x < 0 then - ((- x) div 1000000) else x div 1000000)"
  by (simp add: signed_divide_int_def sgn_if)

lemma div_million_nonneg:
  fixes a :: int
  assumes "0 \<le> a"
  shows "0 \<le> a div 1000000" and "a div 1000000 \<le> a"
    and "(0 < a div 1000000) = (1000000 \<le> a)"
  using assms by (simp_all add: pos_imp_zdiv_nonneg_iff pos_imp_zdiv_pos_iff)

lemma sdiv_million_bounds:
  fixes x :: int
  assumes "- (2 ^ 63) \<le> x" and "x < 2 ^ 63"
  shows "- (2 ^ 63) \<le> x sdiv 1000000" and "x sdiv 1000000 < 2 ^ 63"
proof -
  have "- (2 ^ 63) \<le> x sdiv 1000000 \<and> x sdiv 1000000 < 2 ^ 63"
  proof (cases "x < 0")
    case True
    then have "0 \<le> - x" by simp
    from div_million_nonneg(1,2) [OF this] True assms show ?thesis
      by (simp add: sdiv_million_eq)
  next
    case False
    then have "0 \<le> x" by simp
    from div_million_nonneg(1,2) [OF this] False assms show ?thesis
      by (simp add: sdiv_million_eq)
  qed
  then show "- (2 ^ 63) \<le> x sdiv 1000000" and "x sdiv 1000000 < 2 ^ 63"
    by simp_all
qed

lemma sdiv_million_sign:
  fixes d :: int
  shows "d < 0 \<Longrightarrow> d sdiv 1000000 \<le> 0"
    and "d < 0 \<Longrightarrow> (d sdiv 1000000 < 0) = (d \<le> - 1000000)"
    and "(0::int) sdiv 1000000 = 0"
proof -
  show "d sdiv 1000000 \<le> 0" if "d < 0"
    using that div_million_nonneg(1) [of "- d"] by (simp add: sdiv_million_eq)
  show "(d sdiv 1000000 < 0) = (d \<le> - 1000000)" if "d < 0"
    using that div_million_nonneg(3) [of "- d"] by (simp add: sdiv_million_eq) linarith
  show "(0::int) sdiv 1000000 = 0" by simp
qed

lemma sint_sub_exact:
  fixes T S :: int64
  assumes "- (2 ^ 63) \<le> sint T - sint S" and "sint T - sint S < 2 ^ 63"
  shows "sint (T - S) = sint T - sint S"
  using assms by (simp add: sint_word_ariths signed_take_bit_int_eq_self)

lemma sint_div64_million: "sint (div64 a 1000000) = sint a sdiv 1000000"
proof -
  have a: "- (2 ^ 63) \<le> sint a" "sint a < 2 ^ 63"
    using sint_ge [of a] sint_lt [of a] by simp_all
  have m: "sint (1000000 :: int64) = 1000000"
    by simp
  show ?thesis
    unfolding div64_def m
    using sdiv_million_bounds [OF a]
    by (simp add: sint_sbintrunc' signed_take_bit_int_eq_self)
qed

lemma div64_zero: "div64 0 1000000 = 0"
  by (simp add: div64_def)

text \<open>
  \<open>ReportResult\<close> when the collector hands back an environment, with or without an
  error: the payload it submits, the error it returns and the calls it makes.
\<close>

lemma ReportResult_env:
  assumes "collector ds = (Some env, cerr)"
  shows "\<exists>input.
           ReportResult ds result w =
             Return (map_option ReportSubmissionError (facadeClient ds input),
                     w\<lparr>calls := calls w @
                         [CollectDataCall, NowUnixNanoCall,
                          PutConfigurePackageResultCall input]\<rparr>)
         \<and> InputPackageName input = PackageName result
         \<and> InputPackageVersion input = ResultVersion result
         \<and> InputPreviousPackageVersion input =
             (if PreviousPackageVersion result = [] then None
              else Some (PreviousPackageVersion result))
         \<and> InputOperation input = ResultOperation result
         \<and> InputResult input = ResultExitcode result
         \<and> OverallTiming input = div64 (timeProvider ds - ResultTiming result) 1000000
         \<and> Steps input =
             map (\<lambda>t. \<lparr>Action = Operation t, Result = Exitcode t,
                        StepTiming = div64 (Timing t - ResultTiming result) 1000000\<rparr>)
               (Trace result)
         \<and> Attributes input =
             [''platformName'' \<mapsto> Platform (OperatingSystem env),
              ''platformVersion'' \<mapsto> PlatformVersion (OperatingSystem env),
              ''architecture'' \<mapsto> Architecture (OperatingSystem env),
              ''instanceID'' \<mapsto> InstanceID (Ec2Infrastructure env),
              ''instanceType'' \<mapsto> InstanceType (Ec2Infrastructure env),
              ''region'' \<mapsto> Region (Ec2Infrastructure env),
              ''availabilityZone'' \<mapsto> AvailabilityZone (Ec2Infrastructure env)]"
proof -
  define input where "input =
     \<lparr>InputPackageName = PackageName result,
      InputPackageVersion = ResultVersion result,
      InputPreviousPackageVersion =
        (if PreviousPackageVersion result = [] then None
         else Some (PreviousPackageVersion result)),
      InputOperation = ResultOperation result,
      OverallTiming = div64 (timeProvider ds - ResultTiming result) 1000000,
      InputResult = ResultExitcode result,
      Attributes =
        [''platformName'' \<mapsto> Platform (OperatingSystem env),
         ''platformVersion'' \<mapsto> PlatformVersion (OperatingSystem env),
         ''architecture'' \<mapsto> Architecture (OperatingSystem env),
         ''instanceID'' \<mapsto> InstanceID (Ec2Infrastructure env),
         ''instanceType'' \<mapsto> InstanceType (Ec2Infrastructure env),
         ''region'' \<mapsto> Region (Ec2Infrastructure env),
         ''availabilityZone'' \<mapsto> AvailabilityZone (Ec2Infrastructure env)],
      Steps =
        map (\<lambda>t. \<lparr>Action = Operation t, Result = Exitcode t,
                   StepTiming = div64 (Timing t - ResultTiming result) 1000000\<rparr>)
          (Trace result)\<rparr>"
  have run: "ReportResult ds result w =
             Return (map_option ReportSubmissionError (facadeClient ds input),
                     w\<lparr>calls := calls w @
                         [CollectDataCall, NowUnixNanoCall,
                          PutConfigurePackageResultCall input]\<rparr>)"
    using assms
    by (cases "facadeClient ds input"; cases "PreviousPackageVersion result = []")
       (simp_all add: ReportResult_def Let_def appendSteps_map logCall_def input_def)
  show ?thesis
    by (rule exI [of _ input]) (simp add: run, simp add: input_def)
qed

text \<open>
  Claim C4, as amended. For every result with start timestamp \<open>S\<close>, each step with raw
  timestamp \<open>T\<close> is reported with \<open>(T - S) / 1000000\<close> in \<open>int64\<close> arithmetic, and the
  overall timing is the same function of the clock's reading. Where \<open>T - S\<close> does not
  overflow, the value is the difference divided by 1000000 and truncated towards zero:
  zero when \<open>T = S\<close>, and when \<open>T < S\<close> never positive, and negative exactly when
  \<open>S - T\<close> is at least 1000000.
\<close>

theorem elapsed_milliseconds:
  assumes "collector ds = (Some env, cerr)"
    and "S = ResultTiming result"
  shows "\<exists>input err.
           ReportResult ds result w =
             Return (err, w\<lparr>calls := calls w @
                               [CollectDataCall, NowUnixNanoCall,
                                PutConfigurePackageResultCall input]\<rparr>)
         \<and> map StepTiming (Steps input) =
             map (\<lambda>t. div64 (Timing t - S) 1000000) (Trace result)
         \<and> OverallTiming input = div64 (timeProvider ds - S) 1000000
         \<and> (\<forall>T. - (2 ^ 63) \<le> sint T - sint S \<and> sint T - sint S < 2 ^ 63 \<longrightarrow>
                sint (div64 (T - S) 1000000) = (sint T - sint S) sdiv 1000000
              \<and> (T = S \<longrightarrow> div64 (T - S) 1000000 = 0)
              \<and> (sint T < sint S \<longrightarrow>
                    sint (div64 (T - S) 1000000) \<le> 0
                  \<and> ((sint (div64 (T - S) 1000000) < 0) = (1000000 \<le> sint S - sint T))))"
proof -
  have arith: "sint (div64 (T - S) 1000000) = (sint T - sint S) sdiv 1000000
              \<and> (T = S \<longrightarrow> div64 (T - S) 1000000 = 0)
              \<and> (sint T < sint S \<longrightarrow>
                    sint (div64 (T - S) 1000000) \<le> 0
                  \<and> ((sint (div64 (T - S) 1000000) < 0) = (1000000 \<le> sint S - sint T)))"
    if "- (2 ^ 63) \<le> sint T - sint S" "sint T - sint S < 2 ^ 63" for T
  proof -
    have d: "sint (div64 (T - S) 1000000) = (sint T - sint S) sdiv 1000000"
      by (simp add: sint_div64_million sint_sub_exact [OF that])
    have z: "T = S \<longrightarrow> div64 (T - S) 1000000 = 0"
      by (simp add: div64_zero)
    have n: "sint (div64 (T - S) 1000000) \<le> 0
                  \<and> ((sint (div64 (T - S) 1000000) < 0) = (1000000 \<le> sint S - sint T))"
      if "sint T < sint S"
    proof -
      from that have neg: "sint T - sint S < 0" by simp
      show ?thesis
        unfolding d using sdiv_million_sign(1,2) [OF neg] by linarith
    qed
    from d z n show ?thesis by blast
  qed
  from ReportResult_env [OF assms(1), of result w] obtain input where
    run: "ReportResult ds result w =
            Return (map_option ReportSubmissionError (facadeClient ds input),
                    w\<lparr>calls := calls w @
                        [CollectDataCall, NowUnixNanoCall,
                         PutConfigurePackageResultCall input]\<rparr>)"
    and overall: "OverallTiming input = div64 (timeProvider ds - ResultTiming result) 1000000"
    and steps: "Steps input =
             map (\<lambda>t. \<lparr>Action = Operation t, Result = Exitcode t,
                        StepTiming = div64 (Timing t - ResultTiming result) 1000000\<rparr>)
               (Trace result)"
    by blast
  have timings: "map StepTiming (Steps input) =
             map (\<lambda>t. div64 (Timing t - S) 1000000) (Trace result)"
    unfolding steps assms(2) by simp
  from run overall timings assms(2) arith show ?thesis by blast
qed

theorem elapsed_milliseconds_witness:
  "collector exService = (Some exEnv, None)
   \<and> ResultTiming exResult = 1000000000
   \<and> Trace exResult = [\<lparr>Operation = ''download'', Exitcode = 0, Timing = 1002000000\<rparr>]
   \<and> timeProvider exService = 1005000000
   \<and> (\<exists>input err.
         ReportResult exService exResult exWorld =
           Return (err, exWorld\<lparr>calls := [CollectDataCall, NowUnixNanoCall,
                                           PutConfigurePackageResultCall input]\<rparr>)
       \<and> map StepTiming (Steps input) = [2]
       \<and> OverallTiming input = 5)
   \<and> sint (div64 (999999999 - 1000000000) 1000000) = 0
   \<and> sint (div64 (998000000 - 1000000000) 1000000) = - 2"
proof -
  have c: "collector exService = (Some exEnv, None)"
    and n: "timeProvider exService = 1005000000"
    by (simp_all add: exService_def)
  have s: "ResultTiming exResult = 1000000000"
    and t: "Trace exResult = [\<lparr>Operation = ''download'', Exitcode = 0, Timing = 1002000000\<rparr>]"
    by (simp_all add: exResult_def)
  have v: "div64 (1002000000 - 1000000000) 1000000 = 2"
    "div64 (1005000000 - 1000000000) 1000000 = 5"
    by (simp_all add: div64_def signed_divide_int_def)
  note inst = elapsed_milliseconds [OF c s [symmetric], of exWorld]
  from inst obtain input err where
    i1: "ReportResult exService exResult exWorld =
           Return (err, exWorld\<lparr>calls := calls exWorld @
                                   [CollectDataCall, NowUnixNanoCall,
                                    PutConfigurePackageResultCall input]\<rparr>)"
    and i2: "map StepTiming (Steps input) =
             map (\<lambda>t. div64 (Timing t - 1000000000) 1000000) (Trace exResult)"
    and i3: "OverallTiming input = div64 (timeProvider exService - 1000000000) 1000000"
    and i4: "\<And>T :: int64. - (2 ^ 63) \<le> sint T - sint (1000000000 :: int64)
                \<and> sint T - sint (1000000000 :: int64) < 2 ^ 63 \<Longrightarrow>
              sint (div64 (T - 1000000000) 1000000)
                = (sint T - sint (1000000000 :: int64)) sdiv 1000000"
    by blast
  have e: "calls exWorld = []"
    by (simp add: exWorld_def)
  have j2: "map StepTiming (Steps input) = [2]"
    unfolding i2 t by (simp add: v [simplified])
  have j3: "OverallTiming input = 5"
    unfolding i3 n by (simp add: v [simplified])
  have run: "\<exists>input err.
         ReportResult exService exResult exWorld =
           Return (err, exWorld\<lparr>calls := [CollectDataCall, NowUnixNanoCall,
                                           PutConfigurePackageResultCall input]\<rparr>)
       \<and> map StepTiming (Steps input) = [2]
       \<and> OverallTiming input = 5"
    using i1 j2 j3 unfolding e by auto
  have r1: "- (2 ^ 63) \<le> sint (999999999 :: int64) - sint (1000000000 :: int64)
          \<and> sint (999999999 :: int64) - sint (1000000000 :: int64) < 2 ^ 63"
    and r2: "- (2 ^ 63) \<le> sint (998000000 :: int64) - sint (1000000000 :: int64)
          \<and> sint (998000000 :: int64) - sint (1000000000 :: int64) < 2 ^ 63"
    by simp_all
  from i4 [OF r1] have a: "sint (div64 (999999999 - 1000000000) 1000000) = 0"
    by (simp add: signed_divide_int_def)
  from i4 [OF r2] have b: "sint (div64 (998000000 - 1000000000) 1000000) = - 2"
    by (simp add: signed_divide_int_def)
  from c s t n run a b show ?thesis by blast
qed

text \<open>
  Claim C4 as stated fails: a step stamped one nanosecond before the start is reported
  with zero milliseconds, not with a negative value.
\<close>

theorem elapsed_negative_counterexample:
  "sint (999999999 :: int64) < sint (ResultTiming exEarlyResult)
   \<and> Trace exEarlyResult = [\<lparr>Operation = ''download'', Exitcode = 0, Timing = 999999999\<rparr>]
   \<and> ReportResult exService exEarlyResult exWorld =
       Return (None,
         \<lparr>store = Map.empty,
          calls = [CollectDataCall, NowUnixNanoCall,
                   PutConfigurePackageResultCall
                     \<lparr>InputPackageName = ''pkg'', InputPackageVersion = ''1.0.0'',
                      InputPreviousPackageVersion = None, InputOperation = ''Install'',
                      OverallTiming = 5, InputResult = 0,
                      Attributes =
                        [''platformName'' \<mapsto> ''linux'', ''platformVersion'' \<mapsto> ''5.0'',
                         ''architecture'' \<mapsto> ''x86_64'', ''instanceID'' \<mapsto> ''i-0abc'',
                         ''instanceType'' \<mapsto> ''t2.micro'', ''region'' \<mapsto> ''us-east-1'',
                         ''availabilityZone'' \<mapsto> ''us-east-1a''],
                      Steps = [\<lparr>Action = ''download'', Result = 0, StepTiming = 0\<rparr>]\<rparr>]\<rparr>)
   \<and> \<not> sint (0 :: int64) < 0"
  by (simp add: ReportResult_def exService_def exEarlyResult_def exResult_def exEnv_def
        exWorld_def logCall_def div64_def signed_divide_int_def Let_def)

text \<open>
  Claim C3 fails on the code when the collector fails the way Go functions of type
  \<open>(*T, error)\<close> do, with a nil pointer beside the error: \<open>ReportResult\<close> drops the error
  and panics on \<open>env.OperatingSystem\<close> before the payload is built, whatever the result.
\<close>

theorem ReportResult_nil_env_panics:
  "ReportResult (ds\<lparr>collector := (None, cerr)\<rparr>) result w = Panic"
  by (simp add: ReportResult_def Let_def)

text \<open>
  With an environment beside the error, the error changes nothing: the payload goes out
  with the attributes of that environment.
\<close>

lemma ReportResult_ignores_collector_error:
  "ReportResult (ds\<lparr>collector := (Some env, cerr)\<rparr>) result w =
   ReportResult (ds\<lparr>collector := (Some env, None)\<rparr>) result w"
  by (simp add: ReportResult_def Let_def)

end
